theory Spec2Isabelle
  imports Main "HOL-Library.Multiset" "HOL-Library.List_Lexorder" "HOL-Library.Char_ord"
    "HOL-Library.Sublist"
begin

section \<open>Directory snapshotter (\<open>list_project_structure_sync\<close>)\<close>

text \<open>
  The directory tree below the project root. A directory holds the names that
  \<open>os.listdir\<close> returns for it, in the order in which it returns them, each with the
  node it names. \<open>Denied\<close> is a directory whose listing raises \<open>PermissionError\<close>;
  \<open>Special\<close> is an entry for which both \<open>os.path.isfile\<close> and \<open>os.path.isdir\<close> are
  false (a broken symbolic link, a socket, a device). The tree is finite: cycles of
  symbolic links are outside the model.
\<close>

datatype node = File | Dir "(string \<times> node) list" | Denied | Special

text \<open>
  Exceptions are values: the class of the exception and its message (\<open>str(e)\<close>). Only
  subclasses of \<open>Exception\<close> are modelled, so \<open>except Exception\<close> matches every value of
  this type; \<open>KeyboardInterrupt\<close>, \<open>SystemExit\<close> and task cancellation are outside.
\<close>

datatype exn_class = RuntimeError | ValueError | FileNotFoundError | NotADirectoryError
  | PermissionError | CalledProcessError | ProcessLookupError | BrokenPipeError
  | TimeoutError | JSONDecodeError | UnicodeDecodeError | TypeError | AttributeError
  | OtherError

datatype exn = Exc exn_class string

fun exn_cls :: "exn \<Rightarrow> exn_class" where
  "exn_cls (Exc c m) = c"

fun str_exn :: "exn \<Rightarrow> string" where
  "str_exn (Exc c m) = m"

fun isfile :: "node \<Rightarrow> bool" where
  "isfile File = True"
| "isfile _ = False"

fun isdir :: "node \<Rightarrow> bool" where
  "isdir (Dir items) = True"
| "isdir Denied = True"
| "isdir _ = False"

text \<open>\<open>item.startswith('.')\<close>\<close>

fun startswith_dot :: "string \<Rightarrow> bool" where
  "startswith_dot [] = False"
| "startswith_dot (c # cs) = (c = CHR ''.'')"

text \<open>
  A path below the project root is the list of names that lead to it, so
  \<open>os.path.join(path, item)\<close> is \<open>path @ [item]\<close>, and \<open>os.path.relpath(item_path,
  project_path)\<close> joins those names with the separator.
\<close>

fun relpath :: "string list \<Rightarrow> string" where
  "relpath [] = ''.''"
| "relpath [c] = c"
| "relpath (c # cs) = c @ ''/'' @ relpath cs"

text \<open>
  \<open>get_files_recursive\<close>; \<open>scan_items\<close> is its \<open>for\<close> loop over the listing, with the
  list \<open>files\<close> built so far. A \<open>PermissionError\<close> of \<open>os.listdir\<close> is caught and leaves
  \<open>files\<close> empty; any other error of \<open>os.listdir\<close> is not caught.
\<close>

fun get_files_recursive :: "string list \<Rightarrow> node \<Rightarrow> exn + string list"
  and scan_items :: "string list \<Rightarrow> (string \<times> node) list \<Rightarrow> string list \<Rightarrow> exn + string list"
where
  "get_files_recursive path (Dir items) = scan_items path items []"
| "get_files_recursive path Denied = Inr []"
| "get_files_recursive path File = Inl (Exc NotADirectoryError (relpath path))"
| "get_files_recursive path Special = Inl (Exc NotADirectoryError (relpath path))"
| "scan_items path [] files = Inr files"
| "scan_items path ((item, n) # rest) files =
     (if startswith_dot item then scan_items path rest files
      else if isfile n then scan_items path rest (files @ [relpath (path @ [item])])
      else if isdir n then
        (case get_files_recursive (path @ [item]) n of
           Inl e \<Rightarrow> Inl e
         | Inr subfiles \<Rightarrow>
             scan_items path rest (files @ [relpath (path @ [item]) @ ''/''] @ subfiles))
      else scan_items path rest files)"

definition list_project_structure_sync :: "node \<Rightarrow> exn + string list" where
  "list_project_structure_sync root =
     (case get_files_recursive [] root of
        Inl e \<Rightarrow> Inl e
      | Inr files \<Rightarrow> Inr (sort files))"

subsection \<open>Notions used to state the snapshotter's properties\<close>

text \<open>
  What one entry of a listing adds to \<open>files\<close>: the loop body run on that entry alone.
\<close>

definition entry_output :: "string list \<Rightarrow> string \<times> node \<Rightarrow> string list" where
  "entry_output path e = (case scan_items path [e] [] of Inr xs \<Rightarrow> xs | Inl _ \<Rightarrow> [])"

text \<open>
  Two trees are the same directory tree when they differ only in the order in which
  directories enumerate their entries, at any depth.
\<close>

inductive same_tree :: "node \<Rightarrow> node \<Rightarrow> bool" where
  same: "same_tree t t"
| reorder: "mset items = mset items' \<Longrightarrow> same_tree (Dir items) (Dir items')"
| inside: "same_tree c c' \<Longrightarrow> same_tree (Dir (xs @ (n, c) # ys)) (Dir (xs @ (n, c') # ys))"
| chain: "same_tree a b \<Longrightarrow> same_tree b c \<Longrightarrow> same_tree a c"

text \<open>
  \<open>visible t comps c\<close>: the names \<open>comps\<close> lead from the directory \<open>t\<close> down to the entry
  \<open>c\<close>, and none of them begins with a dot.
\<close>

inductive visible :: "node \<Rightarrow> string list \<Rightarrow> node \<Rightarrow> bool" where
  here: "(item, n) \<in> set items \<Longrightarrow> \<not> startswith_dot item \<Longrightarrow> visible (Dir items) [item] n"
| below: "(item, n) \<in> set items \<Longrightarrow> \<not> startswith_dot item \<Longrightarrow> visible n comps c
          \<Longrightarrow> visible (Dir items) (item # comps) c"

text \<open>
  How an entry at the relative path \<open>comps\<close> is listed: a file bare, a directory with a
  trailing separator, anything else not at all.
\<close>

definition listed_as :: "string list \<Rightarrow> node \<Rightarrow> string option" where
  "listed_as comps c =
     (if isfile c then Some (relpath comps)
      else if isdir c then Some (relpath comps @ ''/'')
      else None)"

text \<open>File names never contain the separator.\<close>

fun valid_names :: "node \<Rightarrow> bool" where
  "valid_names (Dir items) = (\<forall>e \<in> set items. CHR ''/'' \<notin> set (fst e) \<and> valid_names (snd e))"
| "valid_names _ = True"

text \<open>
  \<open>has_hidden_component s\<close>: some component of the path string \<open>s\<close> begins with a dot,
  that is, \<open>s\<close> starts with a dot or has a dot right after a separator.
\<close>

fun hidden_scan :: "bool \<Rightarrow> string \<Rightarrow> bool" where
  "hidden_scan b [] = False"
| "hidden_scan b (c # cs) = ((b \<and> c = CHR ''.'') \<or> hidden_scan (c = CHR ''/'') cs)"

definition has_hidden_component :: "string \<Rightarrow> bool" where
  "has_hidden_component s = hidden_scan True s"

text \<open>
  The project of the end-to-end scenario, with a hidden file and a hidden directory
  added, and the same project enumerated in another order.
\<close>

definition demo_tree :: node where
  "demo_tree = Dir [
     (''tests'', Dir [(''test_main.x'', File), (''.cache'', Dir [(''log'', File)])]),
     (''policy.txt'', File),
     (''.env'', File),
     (''src'', Dir [(''main.x'', File)]),
     (''README.md'', File)]"

definition demo_tree_reordered :: node where
  "demo_tree_reordered = Dir [
     (''README.md'', File),
     (''.env'', File),
     (''src'', Dir [(''main.x'', File)]),
     (''policy.txt'', File),
     (''tests'', Dir [(''.cache'', Dir [(''log'', File)]), (''test_main.x'', File)])]"

section \<open>Tool-protocol client (\<open>MCPFilesystemClient\<close>)\<close>

subsection \<open>Python values and the JSON codec\<close>

text \<open>
  The values that travel in envelopes. \<open>JNull\<close> is \<open>None\<close>; a \<open>dict\<close> is an
  association list in which the first binding of a key counts. Numbers are opaque to
  this program, so integers stand for them.
\<close>

datatype json = JNull | JBool bool | JNum int | JStr string | JArr "json list"
  | JObj "(string \<times> json) list"

text \<open>Truth value of a Python value, as \<open>if x\<close>, \<open>x or y\<close> and \<open>x and y\<close> test it.\<close>

fun truthy :: "json \<Rightarrow> bool" where
  "truthy JNull = False"
| "truthy (JBool b) = b"
| "truthy (JNum n) = (n \<noteq> 0)"
| "truthy (JStr s) = (s \<noteq> [])"
| "truthy (JArr xs) = (xs \<noteq> [])"
| "truthy (JObj kvs) = (kvs \<noteq> [])"

text \<open>
  Text and bytes are both lists of characters: the bytes as they are, a \<open>str\<close> as
  the text it holds. The library functions \<open>json.dumps\<close>, \<open>json.loads\<close>, \<open>repr\<close>,
  \<open>bytes.decode\<close> and \<open>str.strip\<close> are parameters of the model. \<open>loads\<close> returns
  \<open>Inl msg\<close> where \<open>json.loads\<close> raises \<open>JSONDecodeError\<close> with the message \<open>msg\<close>, and
  \<open>decode\<close> returns \<open>Inl msg\<close> where \<open>bytes.decode\<close> raises \<open>UnicodeDecodeError\<close>.
\<close>

record codec =
  dumps :: "json \<Rightarrow> string"
  loads :: "string \<Rightarrow> string + json"
  repr :: "json \<Rightarrow> string"
  decode :: "string \<Rightarrow> string + string"
  strip :: "string \<Rightarrow> string"

text \<open>\<open>str(x)\<close>, also what an f-string puts in place of \<open>{x}\<close>: a string is itself.\<close>

definition py_str :: "codec \<Rightarrow> json \<Rightarrow> string" where
  "py_str cd v = (case v of JStr s \<Rightarrow> s | _ \<Rightarrow> repr cd v)"

subsection \<open>The worker process, the client and what the client does to the world\<close>

record proc =
  returncode :: "int option"

record client =
  project_path :: string
  process :: "proc option"

definition MCPFilesystemClient :: "string \<Rightarrow> client" where
  "MCPFilesystemClient path = \<lparr>project_path = path, process = None\<rparr>"

text \<open>
  The actions a run issues, in order: the probe of the launcher, the spawn of the
  worker, each line written to the worker's standard input, \<open>terminate()\<close> and \<open>kill()\<close>
  on the worker, and the request given to a model provider (key, model, system
  prompt, user prompt, token bound). \<open>Close_called\<close> marks each entry into \<open>close()\<close>.
\<close>

datatype action = Probe_npx | Spawn string | Write string | Close_called | Terminate | Kill
  | Chat_OpenAI string string string string nat
  | Chat_Anthropic string string string string nat

text \<open>
  A step of the client runs on a client state and gives what it returns or raises,
  the client state afterwards, and the actions it issued. \<open>and_then\<close> is sequencing:
  an exception ends the sequence.
\<close>

type_synonym 'a step = "client \<Rightarrow> (exn + 'a) \<times> client \<times> action list"

definition outcome :: "(exn + 'a) \<times> client \<times> action list \<Rightarrow> exn + 'a" where
  "outcome r = fst r"

definition client_after :: "(exn + 'a) \<times> client \<times> action list \<Rightarrow> client" where
  "client_after r = fst (snd r)"

definition actions :: "(exn + 'a) \<times> client \<times> action list \<Rightarrow> action list" where
  "actions r = snd (snd r)"

definition and_then :: "'a step \<Rightarrow> ('a \<Rightarrow> 'b step) \<Rightarrow> 'b step" where
  "and_then m f c =
     (case m c of
        (Inl e, c', t) \<Rightarrow> (Inl e, c', t)
      | (Inr v, c', t) \<Rightarrow> (case f v c' of (r, c'', t') \<Rightarrow> (r, c'', t @ t')))"

text \<open>
  An awaited operation of the world completes after some time with a value or an
  exception, or never. \<open>asyncio.wait_for\<close> gives its result if it completes within the
  bound and raises \<open>TimeoutError\<close> otherwise. Awaits without a bound are taken to
  complete.
\<close>

datatype 'a awaitable = Done nat "exn + 'a" | Never

definition wait_for :: "'a awaitable \<Rightarrow> nat \<Rightarrow> exn + 'a" where
  "wait_for aw timeout =
     (case aw of
        Done t r \<Rightarrow> if t \<le> timeout then r else Inl (Exc TimeoutError [])
      | Never \<Rightarrow> Inl (Exc TimeoutError []))"

subsection \<open>\<open>start_server\<close>\<close>

text \<open>
  What the world does during a start: whether the probe \<open>npx --version\<close> raises,
  whether the spawn raises, and, if the worker has exited by the end of the grace
  period of 2 time units, its return code and the text of its standard error.
\<close>

record start_io =
  npx_probe :: "exn option"
  spawn_error :: "exn option"
  early_exit :: "(int \<times> string) option"

definition start_server :: "start_io \<Rightarrow> bool step" where
  "start_server io c =
     (case npx_probe io of
        Some e \<Rightarrow>
          if exn_cls e = CalledProcessError \<or> exn_cls e = FileNotFoundError
          then (Inl (Exc RuntimeError ''npx is not available. Please install Node.js and npm.''),
                c, [Probe_npx])
          else (Inl e, c, [Probe_npx])
      | None \<Rightarrow>
         (case spawn_error io of
            Some e \<Rightarrow> (Inl e, c, [Probe_npx])
          | None \<Rightarrow>
             (case early_exit io of
                None \<Rightarrow>
                  (Inr True, c\<lparr>process := Some \<lparr>returncode = None\<rparr>\<rparr>,
                   [Probe_npx, Spawn (project_path c)])
              | Some (rc, stderr) \<Rightarrow>
                  (Inl (Exc RuntimeError (''MCP server failed to start: '' @ stderr)),
                   c\<lparr>process := Some \<lparr>returncode = Some rc\<rparr>\<rparr>,
                   [Probe_npx, Spawn (project_path c)]))))"

subsection \<open>\<open>send_request\<close>\<close>

text \<open>
  What the world does during one request: the worker's exit status if it has exited
  on its own by the time of the call, whether \<open>stdin.write\<close> or \<open>drain\<close> raises, and the
  line that \<open>stdout.readline()\<close> gives (empty at end of stream) with the time it takes.
\<close>

record send_io =
  exited :: "int option"
  write_error :: "exn option"
  drain_error :: "exn option"
  response :: "string awaitable"

text \<open>The \<open>returncode\<close> attribute once the world's exit status is taken into account.\<close>

definition poll :: "int option \<Rightarrow> proc \<Rightarrow> proc" where
  "poll ex p = (case returncode p of None \<Rightarrow> p\<lparr>returncode := ex\<rparr> | Some rc \<Rightarrow> p)"

text \<open>The request \<open>dict\<close> of lines 43 to 48; \<open>params or {}\<close>.\<close>

definition request :: "string \<Rightarrow> json \<Rightarrow> json" where
  "request method params =
     JObj [(''jsonrpc'', JStr ''2.0''), (''id'', JNum 1), (''method'', JStr method),
           (''params'', if truthy params then params else JObj [])]"

text \<open>
  Lines 68 to 71 on the parsed response. On a value that is not a \<open>dict\<close> the
  membership test, the subscript or \<open>.get\<close> raises \<open>TypeError\<close> or \<open>AttributeError\<close>.
\<close>

definition check_response :: "codec \<Rightarrow> json \<Rightarrow> exn + json" where
  "check_response cd resp =
     (case resp of
        JObj kvs \<Rightarrow>
          (case map_of kvs ''error'' of
             Some err \<Rightarrow> Inl (Exc RuntimeError (''MCP server error: '' @ py_str cd err))
           | None \<Rightarrow> Inr (case map_of kvs ''result'' of Some r \<Rightarrow> r | None \<Rightarrow> JObj []))
      | JArr xs \<Rightarrow>
          if JStr ''error'' \<in> set xs
          then Inl (Exc TypeError ''list indices must be integers or slices, not str'')
          else Inl (Exc AttributeError ''list object has no attribute get'')
      | JStr s \<Rightarrow>
          if sublist ''error'' s
          then Inl (Exc TypeError ''string indices must be integers'')
          else Inl (Exc AttributeError ''str object has no attribute get'')
      | _ \<Rightarrow> Inl (Exc TypeError ''argument is not iterable''))"

text \<open>
  The body of the \<open>try\<close> block, lines 53 to 71, after the line was written. Line 66 is
  \<open>json.loads(response_line.decode().strip())\<close>: the bytes are decoded, which may raise
  \<open>UnicodeDecodeError\<close>, the text is stripped and then parsed.
\<close>

definition read_response :: "codec \<Rightarrow> send_io \<Rightarrow> exn + json" where
  "read_response cd io =
     (case drain_error io of
        Some e \<Rightarrow> Inl e
      | None \<Rightarrow>
         (case wait_for (response io) 15 of
            Inl e \<Rightarrow> Inl e
          | Inr response_line \<Rightarrow>
              if response_line = [] then Inl (Exc RuntimeError ''No response from MCP server'')
              else (case decode cd response_line of
                      Inl msg \<Rightarrow> Inl (Exc UnicodeDecodeError msg)
                    | Inr text \<Rightarrow>
                       (case loads cd (strip cd text) of
                          Inl msg \<Rightarrow> Inl (Exc JSONDecodeError msg)
                        | Inr resp \<Rightarrow> check_response cd resp))))"

text \<open>The two \<open>except\<close> clauses of lines 73 to 76.\<close>

definition translate :: "exn + json \<Rightarrow> exn + json" where
  "translate r =
     (case r of
        Inr v \<Rightarrow> Inr v
      | Inl e \<Rightarrow>
          if exn_cls e = TimeoutError then Inl (Exc RuntimeError ''MCP server request timed out'')
          else if exn_cls e = JSONDecodeError
          then Inl (Exc RuntimeError (''Invalid JSON response from MCP server: '' @ str_exn e))
          else Inl e)"

definition send_request :: "codec \<Rightarrow> send_io \<Rightarrow> string \<Rightarrow> json \<Rightarrow> json step" where
  "send_request cd io method params c =
     (case process c of
        None \<Rightarrow> (Inl (Exc RuntimeError ''MCP server is not running''), c, [])
      | Some p \<Rightarrow>
          let c' = c\<lparr>process := Some (poll (exited io) p)\<rparr> in
          if returncode (poll (exited io) p) \<noteq> None
          then (Inl (Exc RuntimeError ''MCP server is not running''), c', [])
          else
            let request_json = dumps cd (request method params) @ [CHR 0x0A] in
            (case write_error io of
               Some e \<Rightarrow> (translate (Inl e), c', [])
             | None \<Rightarrow> (translate (read_response cd io), c', [Write request_json])))"

definition initialize :: "codec \<Rightarrow> send_io \<Rightarrow> json step" where
  "initialize cd io =
     send_request cd io ''initialize''
       (JObj [(''protocolVersion'', JStr ''2024-11-05''),
              (''capabilities'', JObj [(''tools'', JObj [])]),
              (''clientInfo'', JObj [(''name'', JStr ''project-validator''),
                                     (''version'', JStr ''1.0.0'')])])"

definition call_tool :: "codec \<Rightarrow> send_io \<Rightarrow> string \<Rightarrow> json \<Rightarrow> json step" where
  "call_tool cd io tool_name arguments =
     send_request cd io ''tools/call''
       (JObj [(''name'', JStr tool_name), (''arguments'', arguments)])"

subsection \<open>\<open>close\<close>\<close>

text \<open>
  What the world does during a close: whether \<open>terminate()\<close> raises, the worker's exit
  status and the time it takes to exit after that, whether \<open>kill()\<close> raises, and what
  the last \<open>wait()\<close> gives.
\<close>

record close_io =
  terminate_error :: "exn option"
  exit_wait :: "int awaitable"
  kill_error :: "exn option"
  kill_wait :: "exn + int"

definition reaped :: "int \<Rightarrow> proc \<Rightarrow> proc" where
  "reaped rc p = (case returncode p of None \<Rightarrow> p\<lparr>returncode := Some rc\<rparr> | Some old \<Rightarrow> p)"

definition close :: "close_io \<Rightarrow> unit step" where
  "close io c =
     (case process c of
        None \<Rightarrow> (Inr (), c, [Close_called])
      | Some p \<Rightarrow>
         (case terminate_error io of
            Some e \<Rightarrow> (Inl e, c, [Close_called, Terminate])
          | None \<Rightarrow>
             (case wait_for (exit_wait io) 5 of
                Inr rc \<Rightarrow> (Inr (), c\<lparr>process := Some (reaped rc p)\<rparr>, [Close_called, Terminate])
              | Inl e \<Rightarrow>
                  if exn_cls e = TimeoutError then
                    (case kill_error io of
                       Some e' \<Rightarrow> (Inl e', c, [Close_called, Terminate, Kill])
                     | None \<Rightarrow>
                        (case kill_wait io of
                           Inl e' \<Rightarrow> (Inl e', c, [Close_called, Terminate, Kill])
                         | Inr rc \<Rightarrow>
                             (Inr (), c\<lparr>process := Some (reaped rc p)\<rparr>,
                              [Close_called, Terminate, Kill])))
                  else (Inl e, c, [Close_called, Terminate]))))"

section \<open>Policy resolver (\<open>get_project_guidelines\<close>)\<close>

text \<open>\<open>os.path.join\<close> of two parts and \<open>os.path.dirname\<close>, as \<open>posixpath\<close> has them.\<close>

definition os_path_join :: "string \<Rightarrow> string \<Rightarrow> string" where
  "os_path_join a b =
     (if take 1 b = ''/'' then b
      else if a = [] \<or> last a = CHR ''/'' then a @ b
      else a @ ''/'' @ b)"

definition os_path_dirname :: "string \<Rightarrow> string" where
  "os_path_dirname p =
     (let head = rev (dropWhile (\<lambda>ch. ch \<noteq> CHR ''/'') (rev p)) in
      if head \<noteq> [] \<and> filter (\<lambda>ch. ch \<noteq> CHR ''/'') head \<noteq> []
      then rev (dropWhile (\<lambda>ch. ch = CHR ''/'') (rev head))
      else head)"

text \<open>
  Lines 136 to 139 (and 148 to 151) on the result of the tool call: the \<open>text\<close> of the
  first content block if \<open>content\<close> is a non-empty list, else \<open>str\<close> of the content.
  \<open>.get\<close> on a value that is not a \<open>dict\<close> raises \<open>AttributeError\<close>.
\<close>

definition extract_text :: "codec \<Rightarrow> json \<Rightarrow> exn + json" where
  "extract_text cd result =
     (case result of
        JObj kvs \<Rightarrow>
          (case (case map_of kvs ''content'' of Some v \<Rightarrow> v | None \<Rightarrow> JArr []) of
             JArr (first # rest) \<Rightarrow>
               (case first of
                  JObj block \<Rightarrow> Inr (case map_of block ''text'' of Some t \<Rightarrow> t | None \<Rightarrow> JStr [])
                | _ \<Rightarrow> Inl (Exc AttributeError ''object has no attribute get''))
           | _ \<Rightarrow>
               Inr (JStr (py_str cd
                     (case map_of kvs ''content'' of Some v \<Rightarrow> v | None \<Rightarrow> JStr []))))
      | _ \<Rightarrow> Inl (Exc AttributeError ''object has no attribute get''))"

text \<open>The body of one \<open>try\<close> block: the \<open>read_file\<close> call on a path and the extraction.\<close>

definition read_policy :: "codec \<Rightarrow> send_io \<Rightarrow> string \<Rightarrow> json step" where
  "read_policy cd io policy_path =
     and_then (call_tool cd io ''read_file'' (JObj [(''path'', JStr policy_path)]))
       (\<lambda>result c. (extract_text cd result, c, []))"

text \<open>
  \<open>policy_content and policy_content.strip()\<close>. In the functions below the parameter
  \<open>project_path\<close> of the source is written \<open>project_dir\<close>; \<open>project_path\<close> is the client's
  attribute.
\<close>

fun supplied :: "codec \<Rightarrow> string option \<Rightarrow> bool" where
  "supplied cd None = False"
| "supplied cd (Some s) = (s \<noteq> [] \<and> strip cd s \<noteq> [])"

definition get_project_guidelines ::
  "codec \<Rightarrow> send_io \<Rightarrow> send_io \<Rightarrow> string \<Rightarrow> string option \<Rightarrow> json step" where
  "get_project_guidelines cd io_root io_parent project_dir policy_content c =
     (if supplied cd policy_content
      then (Inr (case policy_content of Some s \<Rightarrow> JStr s | None \<Rightarrow> JNull), c, [])
      else
        (case read_policy cd io_root (os_path_join project_dir ''policy.txt'') c of
           (Inr text, c1, t1) \<Rightarrow> (Inr text, c1, t1)
         | (Inl e1, c1, t1) \<Rightarrow>
            (case read_policy cd io_parent
                    (os_path_join (os_path_dirname project_dir) ''policy.txt'') c1 of
               (Inr text, c2, t2) \<Rightarrow> (Inr text, c2, t1 @ t2)
             | (Inl e2, c2, t2) \<Rightarrow>
                 (Inl (Exc FileNotFoundError
                        ''policy.txt not found and no policy content provided''),
                  c2, t1 @ t2))))"

section \<open>Validation orchestrator (\<open>run_validation_async\<close>)\<close>

text \<open>
  The result dictionary: with \<open>success\<close> true the policy, the file list and the report,
  with \<open>success\<close> false the error string.
\<close>

datatype validation_result = Success json "string list" json | Failure string

text \<open>
  What the world does during a run: one record per step, the project directory as the
  snapshotter finds it, and what the provider's call and the extraction of the reply
  give.
\<close>

record world =
  w_codec :: codec
  w_start :: start_io
  w_initialize :: send_io
  w_read_root :: send_io
  w_read_parent :: send_io
  w_tree :: node
  w_llm :: "exn + json"
  w_close :: close_io

definition system_prompt :: string where
  "system_prompt = ''You are a software project structure reviewer. Analyze project structures against given policies and provide detailed feedback.''"

text \<open>\<open>chr(10).join(project_files)\<close>\<close>

fun join_lines :: "string list \<Rightarrow> string" where
  "join_lines [] = []"
| "join_lines [l] = l"
| "join_lines (l # ls) = l @ [CHR 0x0A] @ join_lines ls"

definition user_prompt :: "codec \<Rightarrow> json \<Rightarrow> string list \<Rightarrow> string" where
  "user_prompt cd policy project_files =
     ''Project Structure Policy:'' @ [CHR 0x0A] @ py_str cd policy @ [CHR 0x0A, CHR 0x0A]
     @ ''Actual Project Files:'' @ [CHR 0x0A] @ join_lines project_files @ [CHR 0x0A, CHR 0x0A]
     @ ''Please analyze whether the project structure follows the policy guidelines. Identify any missing components, incorrect organization, or deviations from the expected structure.''"

text \<open>
  Lines 198 to 222: the dispatch on the provider name. A \<open>Chat\<close> action is recorded
  whenever a provider's client is called, whether the call then returns or raises;
  \<open>w_llm\<close> is what the call and the extraction of the reply's text give.
\<close>

definition evaluate ::
  "world \<Rightarrow> string \<Rightarrow> string \<Rightarrow> string \<Rightarrow> json \<Rightarrow> string list \<Rightarrow> json step" where
  "evaluate w llm_provider model api_key policy project_files c =
     (if llm_provider = ''OpenAI''
      then (w_llm w, c,
            [Chat_OpenAI api_key model system_prompt
               (user_prompt (w_codec w) policy project_files) 2000])
      else if llm_provider = ''Anthropic''
      then (w_llm w, c,
            [Chat_Anthropic api_key model system_prompt
               (user_prompt (w_codec w) policy project_files) 2000])
      else (Inl (Exc ValueError (''Unsupported LLM provider: '' @ llm_provider)), c, []))"

text \<open>
  The body of the \<open>try\<close> block: \<open>gather\<close> is lines 187 to 195 (start, handshake,
  policy, snapshot), \<open>pipeline\<close> adds the dispatch and the success dictionary of lines
  197 to 229.
\<close>

definition gather :: "world \<Rightarrow> string \<Rightarrow> string option \<Rightarrow> (json \<times> string list) step" where
  "gather w project_dir policy_content =
     and_then (start_server (w_start w)) (\<lambda>started.
     and_then (initialize (w_codec w) (w_initialize w)) (\<lambda>initialized.
     and_then (get_project_guidelines (w_codec w) (w_read_root w) (w_read_parent w)
                 project_dir policy_content) (\<lambda>policy.
     and_then (\<lambda>c. (list_project_structure_sync (w_tree w), c, [])) (\<lambda>project_files c.
       (Inr (policy, project_files), c, [])))))"

definition pipeline ::
  "world \<Rightarrow> string \<Rightarrow> string \<Rightarrow> string \<Rightarrow> string \<Rightarrow> string option
     \<Rightarrow> validation_result step" where
  "pipeline w project_dir llm_provider model api_key policy_content =
     and_then (gather w project_dir policy_content) (\<lambda>(policy, project_files).
     and_then (evaluate w llm_provider model api_key policy project_files) (\<lambda>report c.
       (Inr (Success policy project_files report), c, [])))"

text \<open>
  The whole function: the \<open>try\<close> block, \<open>except Exception\<close> turning an exception into
  the failure dictionary, and \<open>finally\<close> closing the client. An exception raised in the
  \<open>finally\<close> block replaces the value that was about to be returned.
\<close>

definition run_validation_async ::
  "world \<Rightarrow> string \<Rightarrow> string \<Rightarrow> string \<Rightarrow> string \<Rightarrow> string option
     \<Rightarrow> (exn + validation_result) \<times> client \<times> action list" where
  "run_validation_async w project_dir llm_provider model api_key policy_content =
     (case pipeline w project_dir llm_provider model api_key policy_content
             (MCPFilesystemClient project_dir) of
        (r, c, t) \<Rightarrow>
          (case close (w_close w) c of
             (Inl e, c', t') \<Rightarrow> (Inl e, c', t @ t')
           | (Inr u, c', t') \<Rightarrow>
               (Inr (case r of Inl e \<Rightarrow> Failure (str_exn e) | Inr result \<Rightarrow> result),
                c', t @ t')))"

section \<open>Notions used to state the properties of the client and of a run\<close>

text \<open>The states of the client's life cycle, read off the process handle.\<close>

datatype lifecycle = NotStarted | Running | Closed

definition state_of :: "client \<Rightarrow> lifecycle" where
  "state_of c =
     (case process c of
        None \<Rightarrow> NotStarted
      | Some p \<Rightarrow> if returncode p = None then Running else Closed)"

text \<open>The state that \<open>send_request\<close> sees once the world's exit status is taken in.\<close>

definition state_at :: "send_io \<Rightarrow> client \<Rightarrow> lifecycle" where
  "state_at io c =
     (case process c of
        None \<Rightarrow> NotStarted
      | Some p \<Rightarrow> if returncode (poll (exited io) p) = None then Running else Closed)"

text \<open>An awaited operation that does not complete within a bound.\<close>

fun late :: "'a awaitable \<Rightarrow> nat \<Rightarrow> bool" where
  "late Never bound = True"
| "late (Done t r) bound = (bound < t)"

text \<open>
  A world in which closing raises nothing: \<open>terminate()\<close> and \<open>kill()\<close> do not raise and
  the waits give an exit status (or the first one runs out of time).
\<close>

definition cooperative :: "close_io \<Rightarrow> bool" where
  "cooperative io =
     (terminate_error io = None \<and> kill_error io = None
      \<and> (case kill_wait io of Inl e \<Rightarrow> False | Inr rc \<Rightarrow> True)
      \<and> (case wait_for (exit_wait io) 5 of Inl e \<Rightarrow> exn_cls e = TimeoutError | Inr rc \<Rightarrow> True))"

text \<open>The line of a request envelope with version tag 2.0 and id 1.\<close>

definition envelope_line :: "codec \<Rightarrow> string \<Rightarrow> json \<Rightarrow> string" where
  "envelope_line cd method params =
     dumps cd (JObj [(''jsonrpc'', JStr ''2.0''), (''id'', JNum 1), (''method'', JStr method),
                     (''params'', params)]) @ [CHR 0x0A]"

fun is_chat :: "action \<Rightarrow> bool" where
  "is_chat (Chat_OpenAI k m s u n) = True"
| "is_chat (Chat_Anthropic k m s u n) = True"
| "is_chat _ = False"





section \<open>A small world for the examples\<close>

text \<open>
  A codec for the examples: it serialises without escapes, parses the lines that the
  examples use and rejects every other line, and prints a value that is not a string
  as its serialisation; it decodes and strips text as Python does.
\<close>

fun digits :: "nat \<Rightarrow> string" where
  "digits n =
     (if n < 10 then [char_of (48 + n)] else digits (n div 10) @ [char_of (48 + n mod 10)])"

definition quoted :: "string \<Rightarrow> string" where
  "quoted s = [CHR 0x22] @ s @ [CHR 0x22]"

fun dumps_value :: "json \<Rightarrow> string"
  and dumps_elements :: "json list \<Rightarrow> string"
  and dumps_members :: "(string \<times> json) list \<Rightarrow> string"
where
  "dumps_value JNull = ''null''"
| "dumps_value (JBool b) = (if b then ''true'' else ''false'')"
| "dumps_value (JNum n) = (if n < 0 then ''-'' @ digits (nat (- n)) else digits (nat n))"
| "dumps_value (JStr s) = quoted s"
| "dumps_value (JArr xs) = ''['' @ dumps_elements xs @ '']''"
| "dumps_value (JObj kvs) = ''{'' @ dumps_members kvs @ ''}''"
| "dumps_elements [] = []"
| "dumps_elements [x] = dumps_value x"
| "dumps_elements (x # y # ys) = dumps_value x @ '', '' @ dumps_elements (y # ys)"
| "dumps_members [] = []"
| "dumps_members [(k, v)] = quoted k @ '': '' @ dumps_value v"
| "dumps_members ((k, v) # kv # kvs) =
     quoted k @ '': '' @ dumps_value v @ '', '' @ dumps_members (kv # kvs)"

definition ok_answer :: json where
  "ok_answer = JObj [(''jsonrpc'', JStr ''2.0''), (''id'', JNum 1), (''result'', JObj [])]"

definition file_answer :: "string \<Rightarrow> json" where
  "file_answer text =
     JObj [(''jsonrpc'', JStr ''2.0''), (''id'', JNum 1),
           (''result'', JObj [(''content'',
              JArr [JObj [(''type'', JStr ''text''), (''text'', JStr text)]])])]"

definition error_answer :: json where
  "error_answer =
     JObj [(''jsonrpc'', JStr ''2.0''), (''id'', JNum 1),
           (''error'', JObj [(''code'', JNum (- 32601)), (''message'', JStr ''Method not found'')])]"

definition demo_loads :: "string \<Rightarrow> string + json" where
  "demo_loads s =
     (if s = dumps_value ok_answer then Inr ok_answer
      else if s = dumps_value (file_answer ''Expect README.md, src/, tests/'')
      then Inr (file_answer ''Expect README.md, src/, tests/'')
      else if s = dumps_value (file_answer []) then Inr (file_answer [])
      else if s = dumps_value error_answer then Inr error_answer
      else Inl ''Expecting value: line 1 column 1 (char 0)'')"

text \<open>
  The codec holds a \<open>str\<close> as its UTF-8 encoding, so that text and bytes agree on
  ASCII and the character U+00A0 is the two bytes \<open>C2 A0\<close>. \<open>utf8_decode\<close> is
  \<open>bytes.decode()\<close>: it accepts exactly the well-formed UTF-8 sequences (no overlong
  forms, no surrogates, nothing above U+10FFFF).
\<close>

definition continuation :: "char \<Rightarrow> bool" where
  "continuation b = (0x80 \<le> (of_char b :: nat) \<and> (of_char b :: nat) \<le> 0xBF)"

definition second_of_three :: "char \<Rightarrow> char \<Rightarrow> bool" where
  "second_of_three a b =
     (if (of_char a :: nat) = 0xE0 then 0xA0 \<le> (of_char b :: nat) \<and> (of_char b :: nat) \<le> 0xBF
      else if (of_char a :: nat) = 0xED then 0x80 \<le> (of_char b :: nat) \<and> (of_char b :: nat) \<le> 0x9F
      else continuation b)"

definition second_of_four :: "char \<Rightarrow> char \<Rightarrow> bool" where
  "second_of_four a b =
     (if (of_char a :: nat) = 0xF0 then 0x90 \<le> (of_char b :: nat) \<and> (of_char b :: nat) \<le> 0xBF
      else if (of_char a :: nat) = 0xF4 then 0x80 \<le> (of_char b :: nat) \<and> (of_char b :: nat) \<le> 0x8F
      else continuation b)"

text \<open>
  The number of bytes of the character at the head of a byte string, 0 if no
  well-formed character starts there.
\<close>

definition char_width :: "string \<Rightarrow> nat" where
  "char_width bs =
     (case bs of
        [] \<Rightarrow> 0
      | a # rest \<Rightarrow>
          if (of_char a :: nat) < 0x80 then 1
          else if 0xC2 \<le> (of_char a :: nat) \<and> (of_char a :: nat) \<le> 0xDF then
            (case rest of b # r \<Rightarrow> if continuation b then 2 else 0 | _ \<Rightarrow> 0)
          else if 0xE0 \<le> (of_char a :: nat) \<and> (of_char a :: nat) \<le> 0xEF then
            (case rest of
               b # c # r \<Rightarrow> if second_of_three a b \<and> continuation c then 3 else 0
             | _ \<Rightarrow> 0)
          else if 0xF0 \<le> (of_char a :: nat) \<and> (of_char a :: nat) \<le> 0xF4 then
            (case rest of
               b # c # d # r \<Rightarrow>
                 if second_of_four a b \<and> continuation c \<and> continuation d then 4 else 0
             | _ \<Rightarrow> 0)
          else 0)"

function well_formed_utf8 :: "string \<Rightarrow> bool" where
  "well_formed_utf8 bs =
     (if bs = [] then True
      else if char_width bs = 0 then False
      else well_formed_utf8 (drop (char_width bs) bs))"
  by pat_completeness auto
termination
  by (relation "measure length") auto

definition utf8_decode :: "string \<Rightarrow> string + string" where
  "utf8_decode bs =
     (if well_formed_utf8 bs then Inr bs
      else Inl ''utf-8 codec cannot decode: invalid byte sequence'')"

text \<open>
  The characters that \<open>str.strip()\<close> removes, in UTF-8: U+0009 to U+000D, U+001C to
  U+0020, U+0085, U+00A0, U+1680, U+2000 to U+200A, U+2028, U+2029, U+202F, U+205F and
  U+3000.
\<close>

definition whitespace :: "string list" where
  "whitespace =
     [[CHR 0x09], [CHR 0x0A], [CHR 0x0B], [CHR 0x0C], [CHR 0x0D],
      [CHR 0x1C], [CHR 0x1D], [CHR 0x1E], [CHR 0x1F], [CHR 0x20],
      [CHR 0xC2, CHR 0x85], [CHR 0xC2, CHR 0xA0], [CHR 0xE1, CHR 0x9A, CHR 0x80],
      [CHR 0xE2, CHR 0x80, CHR 0x80], [CHR 0xE2, CHR 0x80, CHR 0x81],
      [CHR 0xE2, CHR 0x80, CHR 0x82], [CHR 0xE2, CHR 0x80, CHR 0x83],
      [CHR 0xE2, CHR 0x80, CHR 0x84], [CHR 0xE2, CHR 0x80, CHR 0x85],
      [CHR 0xE2, CHR 0x80, CHR 0x86], [CHR 0xE2, CHR 0x80, CHR 0x87],
      [CHR 0xE2, CHR 0x80, CHR 0x88], [CHR 0xE2, CHR 0x80, CHR 0x89],
      [CHR 0xE2, CHR 0x80, CHR 0x8A], [CHR 0xE2, CHR 0x80, CHR 0xA8],
      [CHR 0xE2, CHR 0x80, CHR 0xA9], [CHR 0xE2, CHR 0x80, CHR 0xAF],
      [CHR 0xE2, CHR 0x81, CHR 0x9F], [CHR 0xE3, CHR 0x80, CHR 0x80]]"

text \<open>
  The width of the whitespace character at the head of a text (0 if there is none),
  \<open>str.lstrip()\<close>, and \<open>str.strip()\<close>, which also strips the end.
\<close>

definition space_width :: "string list \<Rightarrow> string \<Rightarrow> nat" where
  "space_width ws s =
     (case find (\<lambda>w. w \<noteq> [] \<and> prefix w s) ws of None \<Rightarrow> 0 | Some w \<Rightarrow> length w)"

function lstrip :: "string list \<Rightarrow> string \<Rightarrow> string" where
  "lstrip ws s = (if space_width ws s = 0 then s else lstrip ws (drop (space_width ws s) s))"
  by pat_completeness auto
termination
proof (relation "measure (\<lambda>(ws, s). length s)")
  show "wf (measure (\<lambda>(ws, s). length s))" by simp
next
  fix ws :: "string list" and s :: string
  assume positive: "space_width ws s \<noteq> 0"
  then obtain w where "find (\<lambda>w. w \<noteq> [] \<and> prefix w s) ws = Some w"
    by (auto simp: space_width_def split: option.splits)
  then have "w \<noteq> [] \<and> prefix w s" by (auto simp: find_Some_iff)
  then have "s \<noteq> []" by auto
  with positive
  show "((ws, drop (space_width ws s) s), (ws, s)) \<in> measure (\<lambda>(ws, s). length s)" by simp
qed

definition utf8_strip :: "string \<Rightarrow> string" where
  "utf8_strip s = rev (lstrip (map rev whitespace) (rev (lstrip whitespace s)))"

definition demo_codec :: codec where
  "demo_codec = \<lparr>dumps = dumps_value, loads = demo_loads, repr = dumps_value,
                 decode = utf8_decode, strip = utf8_strip\<rparr>"

text \<open>
  A worker that answers with a given line after one time unit, one that never answers,
  and one whose output is at its end.
\<close>

definition answers :: "json \<Rightarrow> send_io" where
  "answers v = \<lparr>exited = None, write_error = None, drain_error = None,
                response = Done 1 (Inr (dumps_value v @ [CHR 0x0A]))\<rparr>"

definition garbled :: send_io where
  "garbled = \<lparr>exited = None, write_error = None, drain_error = None,
              response = Done 1 (Inr (''Secure MCP Filesystem Server running on stdio'' @ [CHR 0x0A]))\<rparr>"

definition silent :: send_io where
  "silent = \<lparr>exited = None, write_error = None, drain_error = None, response = Never\<rparr>"

definition end_of_stream :: send_io where
  "end_of_stream = \<lparr>exited = None, write_error = None, drain_error = None,
                    response = Done 0 (Inr [])\<rparr>"

text \<open>A worker that exits one time unit after \<open>terminate()\<close>.\<close>

definition graceful :: close_io where
  "graceful = \<lparr>terminate_error = None, exit_wait = Done 1 (Inr 0), kill_error = None,
               kill_wait = Inr (- 9)\<rparr>"

text \<open>
  A worker that has already exited when \<open>close()\<close> is reached: \<open>terminate()\<close> on the
  \<open>asyncio\<close> process raises \<open>ProcessLookupError\<close>.
\<close>

definition gone :: close_io where
  "gone = \<lparr>terminate_error = Some (Exc ProcessLookupError []), exit_wait = Done 0 (Inr 1),
           kill_error = Some (Exc ProcessLookupError []), kill_wait = Inr 1\<rparr>"

text \<open>A worker that ignores \<open>terminate()\<close> and exits only when killed.\<close>

definition stubborn :: close_io where
  "stubborn = \<lparr>terminate_error = None, exit_wait = Never, kill_error = None,
               kill_wait = Inr (- 9)\<rparr>"

text \<open>A worker whose line is not UTF-8: the byte \<open>FF\<close> starts no character.\<close>

definition undecodable :: send_io where
  "undecodable = \<lparr>exited = None, write_error = None, drain_error = None,
                  response = Done 1 (Inr [CHR 0xFF, CHR 0x0A])\<rparr>"

text \<open>The text that consists of the character U+00A0 (no-break space) alone.\<close>

definition no_break_space :: string where
  "no_break_space = [CHR 0xC2, CHR 0xA0]"

definition running_client :: client where
  "running_client = \<lparr>project_path = ''/work/proj'', process = Some \<lparr>returncode = None\<rparr>\<rparr>"

text \<open>
  The end-to-end scenario: the worker starts, answers the handshake and serves the
  project's \<open>policy.txt\<close>; the provider replies. In \<open>failed_start_world\<close> the worker
  exits during the grace period of the start.
\<close>

definition demo_world :: world where
  "demo_world =
     \<lparr>w_codec = demo_codec,
      w_start = \<lparr>npx_probe = None, spawn_error = None, early_exit = None\<rparr>,
      w_initialize = answers ok_answer,
      w_read_root = answers (file_answer ''Expect README.md, src/, tests/''),
      w_read_parent = silent,
      w_tree = demo_tree,
      w_llm = Inr (JStr ''The project follows the policy.''),
      w_close = graceful\<rparr>"

definition failed_start_world :: world where
  "failed_start_world =
     demo_world\<lparr>w_start := \<lparr>npx_probe = None, spawn_error = None,
                              early_exit = Some (1, ''Error accessing directory'')\<rparr>,
                 w_close := gone\<rparr>"

text \<open>The same world on a machine without the launcher: the probe finds no \<open>npx\<close>.\<close>

definition npx_missing_world :: world where
  "npx_missing_world =
     demo_world\<lparr>w_start := \<lparr>npx_probe = Some (Exc FileNotFoundError ''npx''),
                              spawn_error = None, early_exit = None\<rparr>\<rparr>"

section \<open>Properties of the directory snapshotter\<close>

lemma gfr_total:
  "isdir n \<Longrightarrow> \<exists>xs. get_files_recursive path n = Inr xs"
  "\<exists>xs. scan_items path items files = Inr xs"
proof (induction path n and path items files rule: get_files_recursive_scan_items.induct)
  case (6 path item n rest files)
  show ?case
  proof (cases "\<not> startswith_dot item \<and> \<not> isfile n \<and> isdir n")
    case True
    then obtain sub where "get_files_recursive (path @ [item]) n = Inr sub"
      using 6 by blast
    with True 6 show ?thesis by simp
  next
    case False
    with 6 show ?thesis by auto
  qed
qed simp_all

lemma scan_items_concat:
  "scan_items path items files = Inr (files @ concat (map (entry_output path) items))"
proof (induction items arbitrary: files)
  case Nil
  show ?case by simp
next
  case (Cons e rest)
  obtain item n where e: "e = (item, n)" by (cases e)
  show ?case
  proof (cases "\<not> startswith_dot item \<and> \<not> isfile n \<and> isdir n")
    case True
    then obtain sub where "get_files_recursive (path @ [item]) n = Inr sub"
      using gfr_total(1) by blast
    with True show ?thesis
      by (simp add: e entry_output_def Cons.IH)
  next
    case False
    then show ?thesis
      by (auto simp: e entry_output_def Cons.IH)
  qed
qed


lemma mset_concat_map_cong:
  assumes "mset xs = mset ys"
  shows "mset (concat (map f xs)) = mset (concat (map f ys))"
proof -
  have "sum_list (map (\<lambda>x. mset (f x)) xs) = sum_mset (image_mset (\<lambda>x. mset (f x)) (mset xs))" for xs
    by (induction xs) simp_all
  then show ?thesis
    using assms by (simp add: mset_concat comp_def)
qed

lemma same_tree_kind:
  "same_tree a b \<Longrightarrow> isfile a = isfile b \<and> isdir a = isdir b \<and> (a = File \<longleftrightarrow> b = File) \<and> (a = Special \<longleftrightarrow> b = Special)"
  by (induction rule: same_tree.induct) auto

lemma same_tree_mset:
  "same_tree a b \<Longrightarrow> rel_sum (=) (\<lambda>xs ys. mset xs = mset ys)
      (get_files_recursive path a) (get_files_recursive path b)"
proof (induction arbitrary: path rule: same_tree.induct)
  case (same t)
  show ?case by (cases "get_files_recursive path t") simp_all
next
  case (reorder items items')
  then show ?case
    using mset_concat_map_cong[of items items' "entry_output path"]
    by (simp add: scan_items_concat)
next
  case (inside c c' xs n ys)
  have k: "isfile c = isfile c'" "isdir c = isdir c'"
    using same_tree_kind[OF inside.hyps] by auto
  have "mset (entry_output path (n, c)) = mset (entry_output path (n, c'))"
  proof (cases "\<not> startswith_dot n \<and> \<not> isfile c \<and> isdir c")
    case True
    obtain s s' where s: "get_files_recursive (path @ [n]) c = Inr s"
        "get_files_recursive (path @ [n]) c' = Inr s'"
      using True k gfr_total(1)[of c "path @ [n]"] gfr_total(1)[of c' "path @ [n]"] by auto
    with inside.IH[of "path @ [n]"] have "mset s = mset s'" by simp
    with True k s show ?thesis by (simp add: entry_output_def)
  next
    case False
    with k show ?thesis by (auto simp: entry_output_def)
  qed
  then show ?case
    by (simp add: scan_items_concat mset_concat)
next
  case (chain a b c)
  from chain.IH(1)[of path] chain.IH(2)[of path] show ?case
    by (cases "get_files_recursive path a"; cases "get_files_recursive path b";
        cases "get_files_recursive path c") simp_all
qed

lemma sort_mset_cong: "mset xs = mset ys \<Longrightarrow> sort xs = sort (ys :: string list)"
  by (metis mset_sort properties_for_sort sorted_sort)

lemma same_tree_snapshot:
  "same_tree a b \<Longrightarrow> list_project_structure_sync a = list_project_structure_sync b"
  using same_tree_mset[of a b "[]"]
  by (cases "get_files_recursive [] a"; cases "get_files_recursive [] b")
     (simp_all add: list_project_structure_sync_def, erule sort_mset_cong)

lemma entry_output_eq:
  "entry_output path (item, n) =
     (if startswith_dot item then []
      else if isfile n then [relpath (path @ [item])]
      else if isdir n then
        (relpath (path @ [item]) @ ''/'') #
          (case get_files_recursive (path @ [item]) n of Inr sub \<Rightarrow> sub | Inl e \<Rightarrow> [])
      else [])"
proof (cases "\<not> startswith_dot item \<and> \<not> isfile n \<and> isdir n")
  case True
  then obtain sub where "get_files_recursive (path @ [item]) n = Inr sub"
    using gfr_total(1) by blast
  with True show ?thesis by (simp add: entry_output_def)
next
  case False
  then show ?thesis by (auto simp: entry_output_def)
qed

lemma visible_is_dir: "visible t comps c \<Longrightarrow> isdir t"
  by (induction rule: visible.induct) simp_all

lemma listed_complete:
  "visible t comps c \<Longrightarrow> listed_as (path @ comps) c = Some s
     \<Longrightarrow> get_files_recursive path t = Inr out \<Longrightarrow> s \<in> set out"
proof (induction arbitrary: path out rule: visible.induct)
  case (here item n items)
  from here.prems(2) have out: "out = concat (map (entry_output path) items)"
    by (simp add: scan_items_concat)
  have "s \<in> set (entry_output path (item, n))"
    using here.hyps(2) here.prems(1)
    by (auto simp: entry_output_eq listed_as_def split: if_splits)
  with here.hyps(1) show ?case unfolding out by auto
next
  case (below item n items comps c)
  from below.prems(2) have out: "out = concat (map (entry_output path) items)"
    by (simp add: scan_items_concat)
  have d: "isdir n" using below.hyps(3) by (rule visible_is_dir)
  then obtain sub where sub: "get_files_recursive (path @ [item]) n = Inr sub"
    using gfr_total(1) by blast
  have "s \<in> set sub"
    using below.IH[of "path @ [item]" sub] below.prems(1) sub by simp
  moreover have "\<not> isfile n" using d by (cases n) simp_all
  ultimately have "s \<in> set (entry_output path (item, n))"
    using below.hyps(2) d sub by (simp add: entry_output_eq)
  with below.hyps(1) show ?case unfolding out by auto
qed

lemma listed_sound:
  "get_files_recursive path t = Inr out \<Longrightarrow> s \<in> set out
     \<Longrightarrow> \<exists>comps c. visible t comps c \<and> listed_as (path @ comps) c = Some s"
proof (induction t arbitrary: path out)
  case (Dir items)
  from Dir.prems(1) have out: "out = concat (map (entry_output path) items)"
    by (simp add: scan_items_concat)
  with Dir.prems(2) obtain item n where e: "(item, n) \<in> set items"
      and s: "s \<in> set (entry_output path (item, n))"
    by auto
  from s have vis: "\<not> startswith_dot item"
    by (auto simp: entry_output_eq split: if_splits)
  show ?case
  proof (cases "isfile n")
    case True
    with s vis have "listed_as (path @ [item]) n = Some s"
      by (simp add: entry_output_eq listed_as_def)
    with e vis show ?thesis using visible.here by blast
  next
    case False
    with s vis have d: "isdir n"
      by (auto simp: entry_output_eq split: if_splits)
    obtain sub where sub: "get_files_recursive (path @ [item]) n = Inr sub"
      using d gfr_total(1) by blast
    from s vis False d sub
    consider "s = relpath (path @ [item]) @ ''/''" | "s \<in> set sub"
      by (auto simp: entry_output_eq)
    then show ?thesis
    proof cases
      case 1
      with False d have "listed_as (path @ [item]) n = Some s"
        by (simp add: listed_as_def)
      with e vis show ?thesis using visible.here by blast
    next
      case 2
      have "n \<in> Basic_BNFs.snds (item, n)" by simp
      from Dir.IH[OF e this sub 2]
      obtain comps c where "visible n comps c"
          "listed_as ((path @ [item]) @ comps) c = Some s"
        by blast
      with e vis have "visible (Dir items) (item # comps) c \<and> listed_as (path @ item # comps) c = Some s"
        using visible.below by simp
      then show ?thesis by blast
    qed
  qed
qed simp_all

lemma hidden_scan_append:
  "hidden_scan b (xs @ ys) =
     (hidden_scan b xs \<or> hidden_scan (if xs = [] then b else last xs = CHR ''/'') ys)"
  by (induction xs arbitrary: b) auto

lemma hidden_scan_name:
  "CHR ''/'' \<notin> set name \<Longrightarrow> hidden_scan b name = (b \<and> startswith_dot name)"
  by (induction name arbitrary: b) (auto simp: neq_Nil_conv)

lemma hidden_scan_after_sep: "hidden_scan b (CHR ''/'' # s) = hidden_scan True s"
  by simp

lemma relpath_Cons: "cs \<noteq> [] \<Longrightarrow> relpath (c # cs) = c @ CHR ''/'' # relpath cs"
  by (cases cs) simp_all

lemma relpath_no_hidden:
  "comps \<noteq> [] \<Longrightarrow> \<forall>c \<in> set comps. CHR ''/'' \<notin> set c \<and> \<not> startswith_dot c
     \<Longrightarrow> \<not> hidden_scan True (relpath comps)"
proof (induction comps rule: relpath.induct)
  case 1 then show ?case by simp
next
  case (2 c) then show ?case by (simp add: hidden_scan_name)
next
  case (3 c v va)
  then show ?case
    by (simp add: hidden_scan_append hidden_scan_name)
qed

lemma relpath_hidden:
  "c \<in> set comps \<Longrightarrow> startswith_dot c \<Longrightarrow> hidden_scan True (relpath comps)"
proof (induction comps rule: relpath.induct)
  case 1 then show ?case by simp
next
  case (2 d) then show ?case by (cases d) simp_all
next
  case (3 d v va)
  show ?case
  proof (cases "startswith_dot d")
    case True
    then show ?thesis by (cases d) simp_all
  next
    case False
    with 3 have "hidden_scan True (relpath (v # va))" by auto
    then show ?thesis by (simp add: hidden_scan_append)
  qed
qed

lemma visible_names:
  "visible t comps c \<Longrightarrow> valid_names t
     \<Longrightarrow> comps \<noteq> [] \<and> (\<forall>x \<in> set comps. CHR ''/'' \<notin> set x \<and> \<not> startswith_dot x)"
  by (induction rule: visible.induct) force+

lemma listed_no_hidden:
  assumes "valid_names t" "get_files_recursive [] t = Inr out" "s \<in> set out"
  shows "\<not> has_hidden_component s"
proof -
  from listed_sound[OF assms(2,3)] obtain comps c
    where v: "visible t comps c" and l: "listed_as comps c = Some s" by auto
  from visible_names[OF v assms(1)] have "\<not> hidden_scan True (relpath comps)"
    using relpath_no_hidden by blast
  moreover from l have "s = relpath comps \<or> s = relpath comps @ ''/''"
    by (auto simp: listed_as_def split: if_splits)
  ultimately show ?thesis
    by (auto simp: has_hidden_component_def hidden_scan_append)
qed

lemma snapshot_set:
  "list_project_structure_sync t = Inr out \<Longrightarrow> \<exists>files. get_files_recursive [] t = Inr files \<and> out = sort files"
  by (auto simp: list_project_structure_sync_def split: sum.splits)

lemma demo_snapshot:
  "list_project_structure_sync demo_tree =
     Inr [''README.md'', ''policy.txt'', ''src/'', ''src/main.x'', ''tests/'', ''tests/test_main.x'']"
  by (simp add: demo_tree_def list_project_structure_sync_def)

lemma demo_same_tree: "same_tree demo_tree demo_tree_reordered"
proof -
  let ?tests = "Dir [(''test_main.x'', File), (''.cache'', Dir [(''log'', File)])]"
  let ?tests' = "Dir [(''.cache'', Dir [(''log'', File)]), (''test_main.x'', File)]"
  let ?mid = "Dir [(''tests'', ?tests'), (''policy.txt'', File), (''.env'', File),
     (''src'', Dir [(''main.x'', File)]), (''README.md'', File)]"
  have "same_tree ?tests ?tests'" by (rule same_tree.reorder) simp
  from same_tree.inside[OF this, of "[]" "''tests''"]
  have "same_tree demo_tree ?mid" by (simp add: demo_tree_def)
  moreover have "same_tree ?mid demo_tree_reordered"
    unfolding demo_tree_reordered_def by (rule same_tree.reorder) simp
  ultimately show ?thesis by (rule same_tree.chain)
qed

text \<open>
  Claim C7. For any directory tree the snapshotter returns a list; the list is sorted
  in the lexicographic order of strings; a tree that differs only in the order in which
  directories enumerate their entries gives the same list; and the list holds exactly
  the visible entries, a file as its relative path and a directory as its relative
  path followed by the separator.
\<close>

theorem snapshot_sorted_deterministic:
  assumes "isdir t"
  shows "\<exists>out. list_project_structure_sync t = Inr out \<and> sorted out
           \<and> (\<forall>t'. same_tree t t' \<longrightarrow> list_project_structure_sync t' = Inr out)
           \<and> (\<forall>s. s \<in> set out \<longleftrightarrow> (\<exists>comps c. visible t comps c \<and> listed_as comps c = Some s))"
proof -
  from assms obtain files where f: "get_files_recursive [] t = Inr files"
    using gfr_total(1) by blast
  let ?out = "sort files"
  have 1: "list_project_structure_sync t = Inr ?out"
    by (simp add: list_project_structure_sync_def f)
  have 2: "sorted ?out" by simp
  have 3: "list_project_structure_sync t' = Inr ?out" if "same_tree t t'" for t'
    using same_tree_snapshot[OF that] 1 by simp
  have 4: "s \<in> set ?out \<longleftrightarrow> (\<exists>comps c. visible t comps c \<and> listed_as comps c = Some s)" for s
  proof
    assume "s \<in> set ?out"
    then have "s \<in> set files" by simp
    from listed_sound[OF f this] show "\<exists>comps c. visible t comps c \<and> listed_as comps c = Some s"
      by simp
  next
    assume "\<exists>comps c. visible t comps c \<and> listed_as comps c = Some s"
    then obtain comps c where "visible t comps c" "listed_as ([] @ comps) c = Some s" by auto
    from listed_complete[OF this f] show "s \<in> set ?out" by simp
  qed
  from 1 2 3 4 show ?thesis by blast
qed

theorem snapshot_sorted_deterministic_witness:
  "isdir demo_tree \<and> same_tree demo_tree demo_tree_reordered
   \<and> list_project_structure_sync demo_tree_reordered = list_project_structure_sync demo_tree
   \<and> list_project_structure_sync demo_tree =
       Inr [''README.md'', ''policy.txt'', ''src/'', ''src/main.x'', ''tests/'', ''tests/test_main.x'']
   \<and> sorted [''README.md'', ''policy.txt'', ''src/'', ''src/main.x'', ''tests/'', ''tests/test_main.x'']
   \<and> visible demo_tree [''src'', ''main.x''] File
   \<and> listed_as [''src'', ''main.x''] File = Some ''src/main.x''"
proof -
  have d: "isdir demo_tree" by (simp add: demo_tree_def)
  from snapshot_sorted_deterministic[OF d] obtain out where
    o: "list_project_structure_sync demo_tree = Inr out" "sorted out"
      "\<forall>t'. same_tree demo_tree t' \<longrightarrow> list_project_structure_sync t' = Inr out"
      "\<forall>s. s \<in> set out \<longleftrightarrow> (\<exists>comps c. visible demo_tree comps c \<and> listed_as comps c = Some s)"
    by blast
  from o(1) have out: "out = [''README.md'', ''policy.txt'', ''src/'', ''src/main.x'', ''tests/'', ''tests/test_main.x'']"
    by (simp add: demo_snapshot)
  have v: "visible demo_tree [''src'', ''main.x''] File"
    unfolding demo_tree_def
    by (rule visible.below[where n = "Dir [(''main.x'', File)]"], simp, simp, rule visible.here) simp_all
  from o(3) demo_same_tree o(1) have "list_project_structure_sync demo_tree_reordered = list_project_structure_sync demo_tree"
    by simp
  with d demo_same_tree o(2) v show ?thesis
    unfolding out[symmetric] using o(1) out by (simp add: listed_as_def)
qed

text \<open>
  Claim C8. In a tree whose names are file names (no separator inside a name), no
  string of the snapshot has a component that begins with a dot; so neither an entry
  whose name begins with a dot, at any depth, nor anything below a hidden directory
  is listed, as a file or as a directory.
\<close>

theorem snapshot_excludes_hidden:
  assumes "valid_names t" and "list_project_structure_sync t = Inr out"
  shows "(\<forall>s \<in> set out. \<not> has_hidden_component s)
       \<and> (\<forall>comps. (\<exists>c \<in> set comps. startswith_dot c)
             \<longrightarrow> relpath comps \<notin> set out \<and> relpath comps @ ''/'' \<notin> set out)"
proof -
  from snapshot_set[OF assms(2)] obtain files
    where f: "get_files_recursive [] t = Inr files" and out: "out = sort files" by blast
  have a: "\<forall>s \<in> set out. \<not> has_hidden_component s"
    using listed_no_hidden[OF assms(1) f] out by simp
  have b: "relpath comps \<notin> set out \<and> relpath comps @ ''/'' \<notin> set out"
    if "\<exists>c \<in> set comps. startswith_dot c" for comps
  proof -
    from that have "hidden_scan True (relpath comps)" using relpath_hidden by blast
    then have "has_hidden_component (relpath comps)" "has_hidden_component (relpath comps @ ''/'')"
      by (simp_all add: has_hidden_component_def hidden_scan_append)
    with a show ?thesis by blast
  qed
  from a b show ?thesis by blast
qed

theorem snapshot_excludes_hidden_witness:
  "valid_names demo_tree
   \<and> list_project_structure_sync demo_tree =
       Inr [''README.md'', ''policy.txt'', ''src/'', ''src/main.x'', ''tests/'', ''tests/test_main.x'']
   \<and> startswith_dot ''.env'' \<and> startswith_dot ''.cache''
   \<and> ''.env'' \<notin> set [''README.md'', ''policy.txt'', ''src/'', ''src/main.x'', ''tests/'', ''tests/test_main.x'']
   \<and> ''tests/.cache/log'' \<notin> set [''README.md'', ''policy.txt'', ''src/'', ''src/main.x'', ''tests/'', ''tests/test_main.x'']
   \<and> \<not> has_hidden_component ''tests/test_main.x''"
proof -
  have v: "valid_names demo_tree" by (simp add: demo_tree_def)
  note h = snapshot_excludes_hidden[OF v demo_snapshot]
  from h have "relpath [''.env''] \<notin> set [''README.md'', ''policy.txt'', ''src/'', ''src/main.x'', ''tests/'', ''tests/test_main.x'']"
    by simp
  moreover from h have "\<not> has_hidden_component ''tests/test_main.x''" by simp
  ultimately show ?thesis using v demo_snapshot by (simp add: has_hidden_component_def)
qed

section \<open>Properties of the client\<close>

lemma outcome_simp [simp]: "outcome (r, c, t) = r"
  and client_after_simp [simp]: "client_after (r, c, t) = c"
  and actions_simp [simp]: "actions (r, c, t) = t"
  by (simp_all add: outcome_def client_after_def actions_def)

lemma translate_Inr [simp]: "translate (Inr v) = Inr v"
  by (simp add: translate_def)


lemma wait_for_late: "late aw n \<Longrightarrow> wait_for aw n = Inl (Exc TimeoutError [])"
  by (cases aw) (simp_all add: wait_for_def)

lemma wait_for_in_time: "t \<le> n \<Longrightarrow> wait_for (Done t r) n = r"
  by (simp add: wait_for_def)


lemma send_request_running:
  "state_at io c = Running \<Longrightarrow> write_error io = None \<Longrightarrow>
     outcome (send_request cd io m ps c) = translate (read_response cd io)
     \<and> actions (send_request cd io m ps c) = [Write (dumps cd (request m ps) @ [CHR 0x0A])]
     \<and> state_of (client_after (send_request cd io m ps c)) = Running"
  by (auto simp: send_request_def state_at_def state_of_def Let_def
           split: option.splits if_splits)

lemma send_request_state:
  "state_of (client_after (send_request cd io m ps c)) = state_at io c"
  by (auto simp: send_request_def state_at_def state_of_def Let_def
           split: option.splits if_splits)

lemma send_request_actions:
  "actions (send_request cd io m ps c) = []
   \<or> actions (send_request cd io m ps c) = [Write (dumps cd (request m ps) @ [CHR 0x0A])]"
  by (auto simp: send_request_def Let_def split: option.splits if_splits)

lemma request_envelope:
  "dumps cd (request m ps) @ [CHR 0x0A]
     = envelope_line cd m (if truthy ps then ps else JObj [])"
  by (simp add: request_def envelope_line_def)

text \<open>\<open>close\<close>.\<close>

lemma close_not_started:
  "state_of c = NotStarted \<Longrightarrow> close io c = (Inr (), c, [Close_called])"
  by (auto simp: close_def state_of_def split: option.splits if_splits)

lemma close_started_actions:
  "state_of c \<noteq> NotStarted \<Longrightarrow>
     actions (close io c) = [Close_called, Terminate]
     \<or> actions (close io c) = [Close_called, Terminate, Kill]"
  by (auto simp: close_def state_of_def split: option.splits if_splits sum.splits)

lemma close_kill_iff:
  "state_of c \<noteq> NotStarted \<Longrightarrow>
     Kill \<in> set (actions (close io c))
     \<longleftrightarrow> terminate_error io = None
         \<and> (\<exists>e. wait_for (exit_wait io) 5 = Inl e \<and> exn_cls e = TimeoutError)"
  by (auto simp: close_def state_of_def split: option.splits if_splits sum.splits)

lemma close_keeps_handle:
  "state_of c \<noteq> NotStarted \<Longrightarrow> state_of (client_after (close io c)) \<noteq> NotStarted"
  by (auto simp: close_def state_of_def split: option.splits if_splits sum.splits)

lemma reaped_exited: "returncode (reaped rc p) \<noteq> None"
  by (cases "returncode p") (simp_all add: reaped_def)

lemma close_returns_closed:
  "state_of c \<noteq> NotStarted \<Longrightarrow> outcome (close io c) = Inr ()
     \<Longrightarrow> state_of (client_after (close io c)) = Closed"
  by (auto simp: close_def state_of_def reaped_exited split: option.splits if_splits sum.splits)

lemma close_cooperative:
  "cooperative io \<Longrightarrow> outcome (close io c) = Inr ()"
  by (auto simp: close_def cooperative_def split: option.splits if_splits sum.splits)

lemma close_called_once:
  "length (filter (\<lambda>a. a = Close_called) (actions (close io c))) = 1"
  by (auto simp: close_def split: option.splits if_splits sum.splits)

lemma close_no_chat: "\<forall>a \<in> set (actions (close io c)). \<not> is_chat a \<and> (\<forall>l. a \<noteq> Write l)"
  by (auto simp: close_def split: option.splits if_splits sum.splits)

lemma read_response_line:
  assumes "drain_error io = None" "response io = Done t (Inr line)" "t \<le> 15"
  shows "read_response cd io =
     (if line = [] then Inl (Exc RuntimeError ''No response from MCP server'')
      else (case decode cd line of
              Inl msg \<Rightarrow> Inl (Exc UnicodeDecodeError msg)
            | Inr text \<Rightarrow>
               (case loads cd (strip cd text) of
                  Inl msg \<Rightarrow> Inl (Exc JSONDecodeError msg)
                | Inr resp \<Rightarrow> check_response cd resp)))"
  using assms by (simp add: read_response_def wait_for_def)


lemmas demo_io_defs = answers_def garbled_def silent_def end_of_stream_def undecodable_def
  graceful_def stubborn_def gone_def running_client_def demo_codec_def

lemma ascii_well_formed:
  "\<forall>ch \<in> set bs. (of_char ch :: nat) < 0x80 \<Longrightarrow> well_formed_utf8 bs"
proof (induction bs)
  case Nil
  show ?case by (simp add: well_formed_utf8.simps)
next
  case (Cons a bs)
  then have "char_width (a # bs) = 1" by (simp add: char_width_def)
  with Cons show ?case by (subst well_formed_utf8.simps) simp
qed

lemma ascii_decode:
  assumes "\<forall>ch \<in> set bs. (of_char ch :: nat) < 0x80"
  shows "utf8_decode bs = Inr bs"
proof -
  have "well_formed_utf8 bs" using assms by (rule ascii_well_formed)
  then show ?thesis by (simp only: utf8_decode_def if_True)
qed

lemma demo_decode:
  "utf8_decode (dumps_value ok_answer @ [CHR 0x0A]) = Inr (dumps_value ok_answer @ [CHR 0x0A])"
  "utf8_decode (dumps_value error_answer @ [CHR 0x0A])
     = Inr (dumps_value error_answer @ [CHR 0x0A])"
  "utf8_decode (dumps_value (file_answer []) @ [CHR 0x0A])
     = Inr (dumps_value (file_answer []) @ [CHR 0x0A])"
  "utf8_decode (dumps_value (file_answer ''Expect README.md, src/, tests/'') @ [CHR 0x0A])
     = Inr (dumps_value (file_answer ''Expect README.md, src/, tests/'') @ [CHR 0x0A])"
  "utf8_decode ''Secure MCP Filesystem Server running on stdio\<newline>''
     = Inr ''Secure MCP Filesystem Server running on stdio\<newline>''"
  by (rule ascii_decode, simp add: ok_answer_def error_answer_def file_answer_def quoted_def)+

lemma demo_undecodable:
  "utf8_decode [CHR 0xFF, CHR 0x0A] = Inl ''utf-8 codec cannot decode: invalid byte sequence''"
  by (subst utf8_decode_def, subst well_formed_utf8.simps) (simp add: char_width_def)

lemma demo_lines:
  "utf8_strip (dumps_value ok_answer @ [CHR 0x0A]) = dumps_value ok_answer"
  "utf8_strip (dumps_value error_answer @ [CHR 0x0A]) = dumps_value error_answer"
  "utf8_strip (dumps_value (file_answer []) @ [CHR 0x0A]) = dumps_value (file_answer [])"
  "utf8_strip (dumps_value (file_answer ''Expect README.md, src/, tests/'') @ [CHR 0x0A])
     = dumps_value (file_answer ''Expect README.md, src/, tests/'')"
  "utf8_strip ''Secure MCP Filesystem Server running on stdio\<newline>''
     = ''Secure MCP Filesystem Server running on stdio''"
  "utf8_strip [] = []"
  "utf8_strip no_break_space = []"
  "utf8_strip ''   '' = []"
  "utf8_strip ''  Expect src/  '' = ''Expect src/''"
  "utf8_strip ''Expect src/'' = ''Expect src/''"
  by (simp_all add: utf8_strip_def lstrip.simps space_width_def whitespace_def no_break_space_def
        ok_answer_def error_answer_def file_answer_def quoted_def)

lemma demo_loads_values:
  "demo_loads (dumps_value ok_answer) = Inr ok_answer"
  "demo_loads (dumps_value error_answer) = Inr error_answer"
  "demo_loads (dumps_value (file_answer [])) = Inr (file_answer [])"
  "demo_loads (dumps_value (file_answer ''Expect README.md, src/, tests/''))
     = Inr (file_answer ''Expect README.md, src/, tests/'')"
  "demo_loads ''Secure MCP Filesystem Server running on stdio''
     = Inl ''Expecting value: line 1 column 1 (char 0)''"
  by (simp_all add: demo_loads_def ok_answer_def error_answer_def file_answer_def quoted_def)

lemma demo_states:
  "state_at io (MCPFilesystemClient d) = NotStarted"
  "state_at (answers v) running_client = Running"
  "state_at garbled running_client = Running"
  "state_at silent running_client = Running"
  "state_at end_of_stream running_client = Running"
  "state_of running_client = Running"
  "state_of (MCPFilesystemClient d) = NotStarted"
  by (simp_all add: state_at_def state_of_def MCPFilesystemClient_def poll_def demo_io_defs)

lemma close_graceful_running:
  "close graceful running_client =
     (Inr (), \<lparr>project_path = ''/work/proj'', process = Some \<lparr>returncode = Some 0\<rparr>\<rparr>,
      [Close_called, Terminate])"
  by (simp add: close_def graceful_def running_client_def wait_for_def reaped_def)




text \<open>
  A line that is not UTF-8 is not translated: \<open>UnicodeDecodeError\<close> leaves
  \<open>send_request\<close> as it is.
\<close>

lemma send_request_undecodable:
  "outcome (send_request demo_codec undecodable ''initialize'' JNull running_client)
     = Inl (Exc UnicodeDecodeError ''utf-8 codec cannot decode: invalid byte sequence'')"
  by (simp add: send_request_def read_response_def wait_for_def poll_def translate_def
        undecodable_def running_client_def demo_codec_def demo_undecodable Let_def)

text \<open>
  Claim C3, as amended. \<open>close()\<close> is a no-op on a client that was never started, and
  leaves it not started. On a started client every \<open>close()\<close> issues \<open>terminate()\<close> and
  keeps the process handle, so a \<open>close()\<close> after it issues \<open>terminate()\<close> again. It
  issues \<open>kill()\<close> exactly when \<open>terminate()\<close> returned and the wait of 5 time units ran
  out: if the worker does not exit within 5 time units the actions are \<open>terminate()\<close>
  and then \<open>kill()\<close>, if it exits in time \<open>terminate()\<close> alone. When \<open>close()\<close> returns
  normally the worker has exited and the client is closed, and it returns normally
  whenever the primitives of the process raise nothing.
\<close>

theorem close_repeated:
  "(state_of c = NotStarted \<longrightarrow> close io c = (Inr (), c, [Close_called]))
   \<and> (state_of c \<noteq> NotStarted \<longrightarrow>
        Terminate \<in> set (actions (close io c))
        \<and> state_of (client_after (close io c)) \<noteq> NotStarted
        \<and> Terminate \<in> set (actions (close io' (client_after (close io c)))))
   \<and> (state_of c \<noteq> NotStarted \<longrightarrow>
        (Kill \<in> set (actions (close io c))
         \<longleftrightarrow> terminate_error io = None
             \<and> (\<exists>e. wait_for (exit_wait io) 5 = Inl e \<and> exn_cls e = TimeoutError)))
   \<and> (state_of c \<noteq> NotStarted \<and> terminate_error io = None \<and> late (exit_wait io) 5 \<longrightarrow>
        actions (close io c) = [Close_called, Terminate, Kill])
   \<and> (state_of c \<noteq> NotStarted \<and> terminate_error io = None
        \<and> exit_wait io = Done t (Inr rc) \<and> t \<le> 5 \<longrightarrow>
        actions (close io c) = [Close_called, Terminate] \<and> outcome (close io c) = Inr ())
   \<and> (state_of c \<noteq> NotStarted \<and> outcome (close io c) = Inr () \<longrightarrow>
        state_of (client_after (close io c)) = Closed)
   \<and> (cooperative io \<longrightarrow> outcome (close io c) = Inr ())"
proof (intro conjI impI)
  assume "state_of c = NotStarted"
  then show "close io c = (Inr (), c, [Close_called])" by (rule close_not_started)
next
  assume s: "state_of c \<noteq> NotStarted"
  have t: "Terminate \<in> set (actions (close j d))" if "state_of d \<noteq> NotStarted" for j d
    using close_started_actions[OF that, of j] by auto
  from s show "Terminate \<in> set (actions (close io c))" by (rule t)
  from s show k: "state_of (client_after (close io c)) \<noteq> NotStarted"
    by (rule close_keeps_handle)
  from k show "Terminate \<in> set (actions (close io' (client_after (close io c))))" by (rule t)
next
  assume "state_of c \<noteq> NotStarted"
  then show "Kill \<in> set (actions (close io c))
         \<longleftrightarrow> terminate_error io = None
             \<and> (\<exists>e. wait_for (exit_wait io) 5 = Inl e \<and> exn_cls e = TimeoutError)"
    by (rule close_kill_iff)
next
  assume "state_of c \<noteq> NotStarted \<and> terminate_error io = None \<and> late (exit_wait io) 5"
  then show "actions (close io c) = [Close_called, Terminate, Kill]"
    by (auto simp: close_def state_of_def wait_for_late split: option.splits sum.splits)
next
  assume a: "state_of c \<noteq> NotStarted \<and> terminate_error io = None
        \<and> exit_wait io = Done t (Inr rc) \<and> t \<le> 5"
  then show "actions (close io c) = [Close_called, Terminate]"
    by (auto simp: close_def state_of_def wait_for_def split: option.splits)
  from a show "outcome (close io c) = Inr ()"
    by (auto simp: close_def state_of_def wait_for_def split: option.splits)
next
  assume "state_of c \<noteq> NotStarted \<and> outcome (close io c) = Inr ()"
  then show "state_of (client_after (close io c)) = Closed"
    using close_returns_closed by blast
next
  assume "cooperative io"
  then show "outcome (close io c) = Inr ()" by (rule close_cooperative)
qed

theorem close_repeated_witness:
  "state_of (MCPFilesystemClient ''/work/proj'') = NotStarted
   \<and> close graceful (MCPFilesystemClient ''/work/proj'')
       = (Inr (), MCPFilesystemClient ''/work/proj'', [Close_called])
   \<and> state_of running_client \<noteq> NotStarted
   \<and> cooperative graceful
   \<and> outcome (close graceful running_client) = Inr ()
   \<and> Terminate \<in> set (actions (close graceful running_client))
   \<and> state_of (client_after (close graceful running_client)) = Closed
   \<and> Terminate \<in> set (actions (close graceful (client_after (close graceful running_client))))
   \<and> terminate_error stubborn = None \<and> late (exit_wait stubborn) 5
   \<and> actions (close stubborn running_client) = [Close_called, Terminate, Kill]
   \<and> Kill \<in> set (actions (close stubborn running_client))
   \<and> terminate_error graceful = None \<and> exit_wait graceful = Done 1 (Inr 0)
   \<and> actions (close graceful running_client) = [Close_called, Terminate]
   \<and> Kill \<notin> set (actions (close graceful running_client))"
proof -
  have coop: "cooperative graceful"
    by (simp add: cooperative_def graceful_def wait_for_def)
  have s: "state_of (MCPFilesystemClient ''/work/proj'') = NotStarted"
    "state_of running_client \<noteq> NotStarted"
    by (simp_all add: demo_states)
  have g: "terminate_error graceful = None" "exit_wait graceful = Done 1 (Inr 0)"
    by (simp_all add: graceful_def)
  have b: "terminate_error stubborn = None" "late (exit_wait stubborn) 5"
    by (simp_all add: stubborn_def)
  have w: "wait_for (exit_wait graceful) 5 = Inr 0"
    "wait_for (exit_wait stubborn) 5 = Inl (Exc TimeoutError [])"
    by (simp_all add: graceful_def stubborn_def wait_for_def)
  note n = close_repeated[of "MCPFilesystemClient ''/work/proj''" graceful graceful]
  note r = close_repeated[of running_client graceful graceful 1 0]
  note k = close_repeated[of running_client stubborn graceful]
  from n s(1) have 1: "close graceful (MCPFilesystemClient ''/work/proj'')
       = (Inr (), MCPFilesystemClient ''/work/proj'', [Close_called])"
    by simp
  from r s(2) coop g have 2: "outcome (close graceful running_client) = Inr ()"
    "Terminate \<in> set (actions (close graceful running_client))"
    "state_of (client_after (close graceful running_client)) = Closed"
    "Terminate \<in> set (actions (close graceful (client_after (close graceful running_client))))"
    "actions (close graceful running_client) = [Close_called, Terminate]"
    by simp_all
  from r s(2) w(1) have 3: "Kill \<notin> set (actions (close graceful running_client))"
    by simp
  from k s(2) b have 4: "actions (close stubborn running_client) = [Close_called, Terminate, Kill]"
    by simp
  from k s(2) b w(2) have 5: "Kill \<in> set (actions (close stubborn running_client))"
    by simp
  from 1 2 3 4 5 s coop g b show ?thesis by simp
qed

text \<open>
  A second \<open>close()\<close> after a successful one is not a no-op: it issues another
  \<open>terminate()\<close>, also in the world in which \<open>terminate()\<close> on the worker that has exited
  raises.
\<close>

theorem close_twice_counterexample:
  "state_of running_client = Running
   \<and> outcome (close graceful running_client) = Inr ()
   \<and> state_of (client_after (close graceful running_client)) = Closed
   \<and> actions (close graceful (client_after (close graceful running_client)))
       = [Close_called, Terminate]
   \<and> close graceful (client_after (close graceful running_client))
       \<noteq> (Inr (), client_after (close graceful running_client), [Close_called])
   \<and> actions (close gone (client_after (close graceful running_client)))
       = [Close_called, Terminate]
   \<and> outcome (close gone (client_after (close graceful running_client)))
       = Inl (Exc ProcessLookupError [])"
  by (simp add: close_graceful_running demo_states)
     (simp add: close_def state_of_def graceful_def gone_def wait_for_def reaped_def)

section \<open>Properties of the policy resolver and of a run\<close>

lemma and_then_Inl:
  "outcome (m c) = Inl e \<Longrightarrow>
     outcome (and_then m f c) = Inl e
     \<and> client_after (and_then m f c) = client_after (m c)
     \<and> actions (and_then m f c) = actions (m c)"
  by (cases "m c") (auto simp: and_then_def)

lemma and_then_Inr:
  "outcome (m c) = Inr v \<Longrightarrow>
     outcome (and_then m f c) = outcome (f v (client_after (m c)))
     \<and> client_after (and_then m f c) = client_after (f v (client_after (m c)))
     \<and> actions (and_then m f c) = actions (m c) @ actions (f v (client_after (m c)))"
  by (cases "m c"; cases "f v (client_after (m c))") (auto simp: and_then_def)

lemma and_then_actions_all:
  assumes "\<And>c. \<forall>a \<in> set (actions (m c)). P a"
    and "\<And>v c. \<forall>a \<in> set (actions (f v c)). P a"
  shows "\<forall>a \<in> set (actions (and_then m f c)). P a"
proof (cases "outcome (m c)")
  case (Inl e)
  then show ?thesis using assms(1)[of c] and_then_Inl[of m c e f] by simp
next
  case (Inr v)
  then show ?thesis
    using assms(1)[of c] assms(2)[of v "client_after (m c)"] and_then_Inr[of m c v f] by auto
qed

lemma read_policy_outcome:
  "outcome (read_policy cd io path c) =
     (case outcome (call_tool cd io ''read_file'' (JObj [(''path'', JStr path)]) c) of
        Inl e \<Rightarrow> Inl e
      | Inr result \<Rightarrow> extract_text cd result)"
  by (cases "call_tool cd io ''read_file'' (JObj [(''path'', JStr path)]) c")
     (auto simp: read_policy_def and_then_def split: sum.splits)

lemma read_policy_actions:
  "actions (read_policy cd io path c) = []
   \<or> actions (read_policy cd io path c)
       = [Write (envelope_line cd ''tools/call''
            (JObj [(''name'', JStr ''read_file''), (''arguments'', JObj [(''path'', JStr path)])]))]"
proof -
  let ?call = "call_tool cd io ''read_file'' (JObj [(''path'', JStr path)])"
  have a: "actions (read_policy cd io path c) = actions (?call c)"
    by (cases "?call c") (auto simp: read_policy_def and_then_def split: sum.splits)
  have "dumps cd (request ''tools/call''
            (JObj [(''name'', JStr ''read_file''), (''arguments'', JObj [(''path'', JStr path)])]))
          @ [CHR 0x0A]
        = envelope_line cd ''tools/call''
            (JObj [(''name'', JStr ''read_file''), (''arguments'', JObj [(''path'', JStr path)])])"
    by (simp add: request_envelope)
  then show ?thesis
    using send_request_actions[of cd io "''tools/call''"
        "JObj [(''name'', JStr ''read_file''), (''arguments'', JObj [(''path'', JStr path)])]" c]
    unfolding a call_tool_def by auto
qed

lemma translate_check_response:
  "translate (check_response cd resp) = check_response cd resp"
  by (cases resp) (simp_all add: check_response_def translate_def split: option.splits)

lemma send_request_outcome_running:
  assumes "state_at io c = Running" "write_error io = None" "drain_error io = None"
    "response io = Done t (Inr line)" "t \<le> 15" "line \<noteq> []"
    "decode cd line = Inr decoded" "loads cd (strip cd decoded) = Inr resp"
  shows "outcome (send_request cd io m ps c) = check_response cd resp"
proof -
  have "outcome (send_request cd io m ps c) = translate (read_response cd io)"
    using send_request_running[OF assms(1,2)] by simp
  also have "read_response cd io = check_response cd resp"
    using read_response_line[OF assms(3,4,5), of cd] assms(6,7,8) by simp
  finally show ?thesis by (simp add: translate_check_response)
qed


lemma demo_call_file:
  assumes "text = [] \<or> text = ''Expect README.md, src/, tests/''"
  shows "outcome (read_policy demo_codec (answers (file_answer text)) path running_client)
           = Inr (JStr text)"
proof -
  have d: "decode demo_codec (dumps_value (file_answer text) @ [CHR 0x0A])
             = Inr (dumps_value (file_answer text) @ [CHR 0x0A])"
    using assms by (auto simp: demo_codec_def demo_decode)
  have l: "loads demo_codec (strip demo_codec (dumps_value (file_answer text) @ [CHR 0x0A]))
             = Inr (file_answer text)"
    using assms by (auto simp: demo_codec_def demo_lines demo_loads_values)
  have "outcome (send_request demo_codec (answers (file_answer text)) m ps running_client)
          = check_response demo_codec (file_answer text)" for m ps
    by (rule send_request_outcome_running[where t = 1
          and line = "dumps_value (file_answer text) @ [CHR 0x0A]"
          and decoded = "dumps_value (file_answer text) @ [CHR 0x0A]"])
       (simp_all add: demo_states d l, simp_all add: answers_def)
  then show ?thesis
    by (simp add: read_policy_outcome call_tool_def check_response_def file_answer_def
          extract_text_def)
qed


lemma start_server_actions:
  "\<forall>a \<in> set (actions (start_server io c)). a = Probe_npx \<or> a = Spawn (project_path c)"
  by (auto simp: start_server_def split: option.splits if_splits prod.splits)

lemma send_request_writes:
  "\<forall>a \<in> set (actions (send_request cd io m ps c)).
     a = Write (envelope_line cd m (if truthy ps then ps else JObj []))"
  using send_request_actions[of cd io m ps c] by (auto simp: request_envelope)

lemma read_policy_writes:
  "\<forall>a \<in> set (actions (read_policy cd io path c)). \<exists>m ps. a = Write (envelope_line cd m ps)"
proof -
  have "\<exists>m ps. Write (envelope_line cd ''tools/call''
            (JObj [(''name'', JStr ''read_file''), (''arguments'', JObj [(''path'', JStr path)])]))
          = Write (envelope_line cd m ps)"
    by blast
  then show ?thesis
    using read_policy_actions[of cd io path c] by (elim disjE) simp_all
qed

lemma guidelines_actions:
  "actions (get_project_guidelines cd io_root io_parent project_dir policy_content c) = []
   \<or> actions (get_project_guidelines cd io_root io_parent project_dir policy_content c)
       = actions (read_policy cd io_root (os_path_join project_dir ''policy.txt'') c)
   \<or> actions (get_project_guidelines cd io_root io_parent project_dir policy_content c)
       = actions (read_policy cd io_root (os_path_join project_dir ''policy.txt'') c)
         @ actions (read_policy cd io_parent
              (os_path_join (os_path_dirname project_dir) ''policy.txt'')
              (client_after (read_policy cd io_root (os_path_join project_dir ''policy.txt'') c)))"
proof -
  let ?root = "read_policy cd io_root (os_path_join project_dir ''policy.txt'') c"
  let ?parent = "read_policy cd io_parent
                      (os_path_join (os_path_dirname project_dir) ''policy.txt'')
                      (client_after ?root)"
  show ?thesis
    by (cases ?root; cases ?parent; cases policy_content)
       (auto simp: get_project_guidelines_def split: sum.splits)
qed

lemma guidelines_writes:
  "\<forall>a \<in> set (actions (get_project_guidelines cd io_root io_parent project_dir policy_content c)).
     \<exists>m ps. a = Write (envelope_line cd m ps)"
  using guidelines_actions[of cd io_root io_parent project_dir policy_content c]
    read_policy_writes[of cd io_root] read_policy_writes[of cd io_parent]
  by (elim disjE) (simp, simp, simp only: set_append ball_Un, blast)

text \<open>
  Every action of the steps before the dispatch is the probe, the spawn or the writing
  of a request envelope.
\<close>

lemma gather_actions:
  "\<forall>a \<in> set (actions (gather w project_dir policy_content c)).
     a = Probe_npx \<or> (\<exists>p. a = Spawn p) \<or> (\<exists>m ps. a = Write (envelope_line (w_codec w) m ps))"
  unfolding gather_def
proof (intro and_then_actions_all)
  fix c
  show "\<forall>a\<in>set (actions (start_server (w_start w) c)).
         a = Probe_npx \<or> (\<exists>p. a = Spawn p) \<or> (\<exists>m ps. a = Write (envelope_line (w_codec w) m ps))"
    using start_server_actions[of "w_start w" c] by blast
  show "\<forall>a\<in>set (actions (initialize (w_codec w) (w_initialize w) c)).
         a = Probe_npx \<or> (\<exists>p. a = Spawn p) \<or> (\<exists>m ps. a = Write (envelope_line (w_codec w) m ps))"
    unfolding initialize_def using send_request_writes by blast
  show "\<forall>a\<in>set (actions (get_project_guidelines (w_codec w) (w_read_root w) (w_read_parent w)
                 project_dir policy_content c)).
         a = Probe_npx \<or> (\<exists>p. a = Spawn p) \<or> (\<exists>m ps. a = Write (envelope_line (w_codec w) m ps))"
    using guidelines_writes by blast
  show "\<forall>a\<in>set (actions (list_project_structure_sync (w_tree w), c, [])).
         a = Probe_npx \<or> (\<exists>p. a = Spawn p) \<or> (\<exists>m ps. a = Write (envelope_line (w_codec w) m ps))"
    by simp
  fix v :: "string list"
  show "\<forall>a\<in>set (actions (Inr (x, v), c, [])).
         a = Probe_npx \<or> (\<exists>p. a = Spawn p) \<or> (\<exists>m ps. a = Write (envelope_line (w_codec w) m ps))" for x :: json
    by simp
qed

lemma evaluate_actions:
  "\<forall>a \<in> set (actions (evaluate w llm_provider model api_key policy project_files c)).
     is_chat a \<and> (llm_provider = ''OpenAI'' \<or> llm_provider = ''Anthropic'')"
  by (simp add: evaluate_def)

lemma pipeline_actions:
  "\<forall>a \<in> set (actions (pipeline w project_dir llm_provider model api_key policy_content c)).
     a = Probe_npx \<or> (\<exists>p. a = Spawn p) \<or> (\<exists>m ps. a = Write (envelope_line (w_codec w) m ps))
     \<or> (is_chat a \<and> (llm_provider = ''OpenAI'' \<or> llm_provider = ''Anthropic''))"
  unfolding pipeline_def
proof (intro and_then_actions_all)
  fix c
  show "\<forall>a\<in>set (actions (gather w project_dir policy_content c)).
     a = Probe_npx \<or> (\<exists>p. a = Spawn p) \<or> (\<exists>m ps. a = Write (envelope_line (w_codec w) m ps))
     \<or> (is_chat a \<and> (llm_provider = ''OpenAI'' \<or> llm_provider = ''Anthropic''))"
    using gather_actions[of w project_dir policy_content c] by blast
  fix v :: "json \<times> string list"
  show "\<forall>a\<in>set (actions ((case v of (policy, project_files) \<Rightarrow>
            and_then (evaluate w llm_provider model api_key policy project_files)
              (\<lambda>report c. (Inr (Success policy project_files report), c, []))) c)).
     a = Probe_npx \<or> (\<exists>p. a = Spawn p) \<or> (\<exists>m ps. a = Write (envelope_line (w_codec w) m ps))
     \<or> (is_chat a \<and> (llm_provider = ''OpenAI'' \<or> llm_provider = ''Anthropic''))"
  proof (cases v)
    case (Pair policy project_files)
    have "\<forall>a\<in>set (actions (and_then (evaluate w llm_provider model api_key policy project_files)
              (\<lambda>report c. (Inr (Success policy project_files report), c, [])) c)).
       is_chat a \<and> (llm_provider = ''OpenAI'' \<or> llm_provider = ''Anthropic'')"
      by (intro and_then_actions_all) (simp_all add: evaluate_actions)
    then show ?thesis unfolding Pair by auto
  qed
qed

text \<open>A run is the body of the \<open>try\<close> block followed by \<open>close\<close> on the client it left.\<close>

lemma run_actions:
  "actions (run_validation_async w project_dir llm_provider model api_key policy_content)
     = actions (pipeline w project_dir llm_provider model api_key policy_content
                  (MCPFilesystemClient project_dir))
       @ actions (close (w_close w)
           (client_after (pipeline w project_dir llm_provider model api_key policy_content
                  (MCPFilesystemClient project_dir))))"
  by (cases "pipeline w project_dir llm_provider model api_key policy_content
                  (MCPFilesystemClient project_dir)";
      cases "close (w_close w)
           (client_after (pipeline w project_dir llm_provider model api_key policy_content
                  (MCPFilesystemClient project_dir)))")
     (auto simp: run_validation_async_def split: sum.splits)

lemma run_outcome:
  "outcome (run_validation_async w project_dir llm_provider model api_key policy_content)
     = (case outcome (close (w_close w)
           (client_after (pipeline w project_dir llm_provider model api_key policy_content
                  (MCPFilesystemClient project_dir)))) of
          Inl e \<Rightarrow> Inl e
        | Inr u \<Rightarrow>
            Inr (case outcome (pipeline w project_dir llm_provider model api_key policy_content
                     (MCPFilesystemClient project_dir)) of
                   Inl e \<Rightarrow> Failure (str_exn e)
                 | Inr result \<Rightarrow> result))"
  by (cases "pipeline w project_dir llm_provider model api_key policy_content
                  (MCPFilesystemClient project_dir)";
      cases "close (w_close w)
           (client_after (pipeline w project_dir llm_provider model api_key policy_content
                  (MCPFilesystemClient project_dir)))")
     (auto simp: run_validation_async_def split: sum.splits)

text \<open>
  Where \<open>close()\<close> returns, the run returns a result dictionary, a failure with the
  message of the exception if a step raised; the run raises exactly when \<open>close()\<close>
  raises.
\<close>

lemma run_returns_if_close_returns:
  assumes "outcome (close (w_close w)
           (client_after (pipeline w project_dir llm_provider model api_key policy_content
                  (MCPFilesystemClient project_dir)))) = Inr ()"
  shows "\<exists>result. outcome (run_validation_async w project_dir llm_provider model api_key
                    policy_content) = Inr result"
  using assms by (simp add: run_outcome)

lemma run_raises_iff_close_raises:
  "outcome (run_validation_async w project_dir llm_provider model api_key policy_content) = Inl e
   \<longleftrightarrow> outcome (close (w_close w)
           (client_after (pipeline w project_dir llm_provider model api_key policy_content
                  (MCPFilesystemClient project_dir)))) = Inl e"
  by (simp add: run_outcome split: sum.splits)

lemma pipeline_no_close:
  "Close_called \<notin> set (actions (pipeline w project_dir llm_provider model api_key policy_content c))"
  using pipeline_actions[of w project_dir llm_provider model api_key policy_content c]
  by auto

lemma pipeline_unsupported:
  assumes "llm_provider \<noteq> ''OpenAI''" and "llm_provider \<noteq> ''Anthropic''"
  shows "pipeline w project_dir llm_provider model api_key policy_content c
    = (case gather w project_dir policy_content c of
         (Inl e, c', t) \<Rightarrow> (Inl e, c', t)
       | (Inr v, c', t) \<Rightarrow>
           (Inl (Exc ValueError (''Unsupported LLM provider: '' @ llm_provider)), c', t))"
  using assms
  by (cases "gather w project_dir policy_content c")
     (auto simp: pipeline_def and_then_def evaluate_def split: sum.splits prod.splits)

text \<open>Runs of the example worlds, evaluated.\<close>

lemma demo_gather:
  "outcome (gather demo_world ''/work/proj'' None (MCPFilesystemClient ''/work/proj''))
     = Inr (JStr ''Expect README.md, src/, tests/'',
            [''README.md'', ''policy.txt'', ''src/'', ''src/main.x'', ''tests/'', ''tests/test_main.x''])"
  "client_after (gather demo_world ''/work/proj'' None (MCPFilesystemClient ''/work/proj''))
     = running_client"
  by code_simp+

lemma demo_run_gemini:
  "outcome (close (w_close demo_world) running_client) = Inr ()"
  by code_simp

lemma demo_run:
  "outcome (run_validation_async demo_world ''/work/proj'' ''OpenAI'' ''gpt-4'' ''sk-key'' None)
     = Inr (Success (JStr ''Expect README.md, src/, tests/'')
          [''README.md'', ''policy.txt'', ''src/'', ''src/main.x'', ''tests/'', ''tests/test_main.x'']
          (JStr ''The project follows the policy.''))"
  by code_simp

lemma demo_run_writes:
  "filter (\<lambda>a. case a of Write l \<Rightarrow> True | _ \<Rightarrow> False)
     (actions (run_validation_async demo_world ''/work/proj'' ''OpenAI'' ''gpt-4'' ''sk-key'' None))
   = [Write (dumps_value (request ''initialize''
         (JObj [(''protocolVersion'', JStr ''2024-11-05''),
              (''capabilities'', JObj [(''tools'', JObj [])]),
              (''clientInfo'', JObj [(''name'', JStr ''project-validator''),
                                     (''version'', JStr ''1.0.0'')])])) @ [CHR 0x0A]),
      Write (dumps_value (request ''tools/call''
         (JObj [(''name'', JStr ''read_file''),
                (''arguments'', JObj [(''path'', JStr ''/work/proj/policy.txt'')])])) @ [CHR 0x0A])]"
  by code_simp

lemma failed_run:
  "run_validation_async failed_start_world ''/work/proj'' ''OpenAI'' ''gpt-4'' ''sk-key'' None
     = (Inl (Exc ProcessLookupError []),
        \<lparr>project_path = ''/work/proj'', process = Some \<lparr>returncode = Some 1\<rparr>\<rparr>,
        [Probe_npx, Spawn ''/work/proj'', Close_called, Terminate])"
  by code_simp



text \<open>
  Claim C6, as amended. Whatever the supplied text and the outcomes of the tool reads,
  the resolver returns a policy value or fails with \<open>FileNotFoundError\<close>, and with no
  other error. A supplied text that is not empty after \<open>str.strip()\<close> is returned,
  and it is not empty; a text obtained through a tool read is returned as it is.
\<close>

theorem guidelines_result:
  "((\<exists>text. outcome (get_project_guidelines cd io_root io_parent project_dir policy_content c)
              = Inr text)
    \<or> outcome (get_project_guidelines cd io_root io_parent project_dir policy_content c)
        = Inl (Exc FileNotFoundError ''policy.txt not found and no policy content provided''))
   \<and> (supplied cd policy_content \<longrightarrow>
        (\<exists>s. policy_content = Some s \<and> s \<noteq> []
           \<and> outcome (get_project_guidelines cd io_root io_parent project_dir policy_content c)
               = Inr (JStr s)))"
proof -
  let ?root = "read_policy cd io_root (os_path_join project_dir ''policy.txt'') c"
  let ?parent = "read_policy cd io_parent
                      (os_path_join (os_path_dirname project_dir) ''policy.txt'')
                      (client_after ?root)"
  show ?thesis
    by (cases ?root; cases ?parent; cases policy_content)
       (auto simp: get_project_guidelines_def split: sum.splits)
qed

theorem guidelines_result_witness:
  "supplied demo_codec (Some ''Expect src/'')
   \<and> outcome (get_project_guidelines demo_codec silent silent ''/work/proj''
        (Some ''Expect src/'') running_client) = Inr (JStr ''Expect src/'')
   \<and> \<not> supplied demo_codec (Some no_break_space)"
proof -
  have s: "supplied demo_codec (Some ''Expect src/'')"
    "\<not> supplied demo_codec (Some no_break_space)"
    by (simp_all add: demo_codec_def demo_lines)
  with guidelines_result[of demo_codec silent silent "''/work/proj''" "Some ''Expect src/''"
      running_client]
  show ?thesis by simp
qed

text \<open>
  The resolver can return the empty string: with no supplied text, a \<open>policy.txt\<close>
  whose content block holds the empty text is returned as the policy.
\<close>

theorem guidelines_empty_counterexample:
  "\<not> supplied demo_codec None
   \<and> outcome (read_policy demo_codec (answers (file_answer [])) ''/work/proj/policy.txt''
        running_client) = Inr (JStr [])
   \<and> outcome (get_project_guidelines demo_codec (answers (file_answer [])) silent
        ''/work/proj'' None running_client) = Inr (JStr [])"
proof -
  have r: "outcome (read_policy demo_codec (answers (file_answer [])) ''/work/proj/policy.txt''
        running_client) = Inr (JStr [])"
    by (rule demo_call_file) simp
  have p: "os_path_join ''/work/proj'' ''policy.txt'' = ''/work/proj/policy.txt''"
    by (simp add: os_path_join_def)
  have "outcome (get_project_guidelines demo_codec (answers (file_answer [])) silent
        ''/work/proj'' None running_client) = Inr (JStr [])"
    using r
    by (cases "read_policy demo_codec (answers (file_answer [])) ''/work/proj/policy.txt''
          running_client")
       (simp add: get_project_guidelines_def p)
  with r show ?thesis by simp
qed

text \<open>
  Claim C1, on the run in which the worker exits during the grace period of the
  start. \<open>start_server\<close> raises, \<open>except Exception\<close> prepares the failure dictionary,
  and \<open>close()\<close> in the \<open>finally\<close> block calls \<open>terminate()\<close> on the worker that has
  exited; \<open>ProcessLookupError\<close> leaves \<open>run_validation_async\<close> in place of the
  dictionary. The claim says that no exception reaches the caller.
\<close>

theorem failed_start_close_raises:
  "outcome (pipeline failed_start_world ''/work/proj'' ''OpenAI'' ''gpt-4'' ''sk-key'' None
             (MCPFilesystemClient ''/work/proj''))
     = Inl (Exc RuntimeError ''MCP server failed to start: Error accessing directory'')
   \<and> run_validation_async failed_start_world ''/work/proj'' ''OpenAI'' ''gpt-4'' ''sk-key'' None
     = (Inl (Exc ProcessLookupError []),
        \<lparr>project_path = ''/work/proj'', process = Some \<lparr>returncode = Some 1\<rparr>\<rparr>,
        [Probe_npx, Spawn ''/work/proj'', Close_called, Terminate])"
  by code_simp

text \<open>
  Claim C4. In every world and for every input, a run enters \<open>close()\<close> exactly once:
  the steps of the \<open>try\<close> block never do, and whatever they return or raise, the run
  ends with \<open>close()\<close> on the client in the state in which they left it.
\<close>

theorem close_called_exactly_once:
  "length (filter (\<lambda>a. a = Close_called)
      (actions (run_validation_async w project_dir llm_provider model api_key policy_content))) = 1
   \<and> actions (run_validation_async w project_dir llm_provider model api_key policy_content)
       = actions (pipeline w project_dir llm_provider model api_key policy_content
                    (MCPFilesystemClient project_dir))
         @ actions (close (w_close w)
             (client_after (pipeline w project_dir llm_provider model api_key policy_content
                    (MCPFilesystemClient project_dir))))
   \<and> Close_called \<notin> set (actions (pipeline w project_dir llm_provider model api_key
                    policy_content (MCPFilesystemClient project_dir)))"
proof -
  have "filter (\<lambda>a. a = Close_called)
          (actions (pipeline w project_dir llm_provider model api_key policy_content
                    (MCPFilesystemClient project_dir))) = []"
    using pipeline_no_close[of w project_dir llm_provider model api_key policy_content
        "MCPFilesystemClient project_dir"]
    by (auto simp: filter_empty_conv)
  then show ?thesis
    using pipeline_no_close by (simp add: run_actions close_called_once)
qed

theorem close_called_exactly_once_witness:
  "length (filter (\<lambda>a. a = Close_called)
      (actions (run_validation_async demo_world ''/work/proj'' ''OpenAI'' ''gpt-4'' ''sk-key'' None))) = 1
   \<and> length (filter (\<lambda>a. a = Close_called)
      (actions (run_validation_async failed_start_world ''/work/proj'' ''OpenAI'' ''gpt-4'' ''sk-key''
         None))) = 1
   \<and> actions (run_validation_async failed_start_world ''/work/proj'' ''OpenAI'' ''gpt-4'' ''sk-key''
         None) = [Probe_npx, Spawn ''/work/proj'', Close_called, Terminate]"
proof -
  note a = close_called_exactly_once[of demo_world "''/work/proj''" "''OpenAI''" "''gpt-4''"
      "''sk-key''" None, THEN conjunct1]
  note b = close_called_exactly_once[of failed_start_world "''/work/proj''" "''OpenAI''"
      "''gpt-4''" "''sk-key''" None, THEN conjunct1]
  have c: "actions (run_validation_async failed_start_world ''/work/proj'' ''OpenAI'' ''gpt-4''
         ''sk-key'' None) = [Probe_npx, Spawn ''/work/proj'', Close_called, Terminate]"
    by (simp add: failed_run)
  from a b c show ?thesis by (intro conjI)
qed

text \<open>
  Claim C9, as amended. With a provider name other than \<open>OpenAI\<close> and \<open>Anthropic\<close> no request is
  given to a model provider and the run never reports success; when the steps before
  the dispatch succeed and \<open>close()\<close> returns, the run returns the failure whose message
  is ``Unsupported LLM provider:'' followed by the name.
\<close>

theorem unsupported_provider:
  assumes "llm_provider \<noteq> ''OpenAI''" and "llm_provider \<noteq> ''Anthropic''"
  shows "(\<forall>a \<in> set (actions (run_validation_async w project_dir llm_provider model api_key
                              policy_content)). \<not> is_chat a)
       \<and> (\<forall>policy files report.
            outcome (run_validation_async w project_dir llm_provider model api_key policy_content)
              \<noteq> Inr (Success policy files report))
       \<and> (\<forall>policy files.
            outcome (gather w project_dir policy_content (MCPFilesystemClient project_dir))
              = Inr (policy, files)
            \<and> outcome (close (w_close w)
                 (client_after (gather w project_dir policy_content
                    (MCPFilesystemClient project_dir)))) = Inr ()
            \<longrightarrow> outcome (run_validation_async w project_dir llm_provider model api_key
                    policy_content)
                = Inr (Failure (''Unsupported LLM provider: '' @ llm_provider)))"
proof -
  let ?g = "gather w project_dir policy_content (MCPFilesystemClient project_dir)"
  let ?p = "pipeline w project_dir llm_provider model api_key policy_content
              (MCPFilesystemClient project_dir)"
  note pu = pipeline_unsupported[OF assms, of w project_dir model api_key policy_content
      "MCPFilesystemClient project_dir"]
  have 1: "\<not> is_chat a"
    if "a \<in> set (actions (run_validation_async w project_dir llm_provider model api_key
                              policy_content))" for a
    using that pipeline_actions[of w project_dir llm_provider model api_key policy_content
        "MCPFilesystemClient project_dir"] close_no_chat[of "w_close w"] assms
    by (auto simp: run_actions)
  have pl: "\<exists>e. outcome ?p = Inl e"
    unfolding pu by (cases ?g) (auto split: sum.splits)
  have 2: "outcome (run_validation_async w project_dir llm_provider model api_key policy_content)
              \<noteq> Inr (Success policy files report)" for policy files report
    using pl by (auto simp: run_outcome split: sum.splits)
  have 3: "outcome (run_validation_async w project_dir llm_provider model api_key
                    policy_content)
                = Inr (Failure (''Unsupported LLM provider: '' @ llm_provider))"
    if h: "outcome ?g = Inr (policy, files)
            \<and> outcome (close (w_close w) (client_after ?g)) = Inr ()" for policy files
  proof -
    from h have "outcome ?p = Inl (Exc ValueError (''Unsupported LLM provider: '' @ llm_provider))
      \<and> client_after ?p = client_after ?g"
      unfolding pu by (cases ?g) auto
    with h show ?thesis by (simp add: run_outcome)
  qed
  from 1 2 3 show ?thesis by blast
qed

theorem unsupported_provider_witness:
  "''Gemini'' \<noteq> ''OpenAI'' \<and> ''Gemini'' \<noteq> ''Anthropic''
   \<and> outcome (gather demo_world ''/work/proj'' None (MCPFilesystemClient ''/work/proj''))
     = Inr (JStr ''Expect README.md, src/, tests/'',
            [''README.md'', ''policy.txt'', ''src/'', ''src/main.x'', ''tests/'', ''tests/test_main.x''])
   \<and> outcome (close (w_close demo_world)
         (client_after (gather demo_world ''/work/proj'' None (MCPFilesystemClient ''/work/proj''))))
       = Inr ()
   \<and> outcome (run_validation_async demo_world ''/work/proj'' ''Gemini'' ''gemini-pro'' ''key'' None)
       = Inr (Failure ''Unsupported LLM provider: Gemini'')
   \<and> filter is_chat
        (actions (run_validation_async demo_world ''/work/proj'' ''Gemini'' ''gemini-pro'' ''key''
           None)) = []"
proof -
  have n: "''Gemini'' \<noteq> ''OpenAI''" "''Gemini'' \<noteq> ''Anthropic''" by simp_all
  note t = unsupported_provider[OF n, of demo_world "''/work/proj''" "''gemini-pro''" "''key''" None]
  have c: "outcome (close (w_close demo_world)
         (client_after (gather demo_world ''/work/proj'' None (MCPFilesystemClient ''/work/proj''))))
       = Inr ()"
    by (simp add: demo_gather demo_run_gemini)
  from t demo_gather(1) c
  have r: "outcome (run_validation_async demo_world ''/work/proj'' ''Gemini'' ''gemini-pro'' ''key''
             None) = Inr (Failure ''Unsupported LLM provider: Gemini'')"
    by simp
  from t have "filter is_chat
        (actions (run_validation_async demo_world ''/work/proj'' ''Gemini'' ''gemini-pro'' ''key''
           None)) = []"
    by (simp add: filter_empty_conv)
  with n demo_gather(1) c r show ?thesis by simp
qed

text \<open>
  The error of a run with an unsupported provider need not mention the provider: the
  dispatch comes after the start, the handshake, the policy and the snapshot, and on
  a machine without \<open>npx\<close> the run with the provider \<open>Gemini\<close> fails with the error of
  the start.
\<close>

theorem unsupported_provider_counterexample:
  "''Gemini'' \<noteq> ''OpenAI'' \<and> ''Gemini'' \<noteq> ''Anthropic''
   \<and> outcome (run_validation_async npx_missing_world ''/work/proj'' ''Gemini'' ''gemini-pro''
         ''key'' None)
       = Inr (Failure ''npx is not available. Please install Node.js and npm.'')
   \<and> \<not> sublist ''Gemini'' ''npx is not available. Please install Node.js and npm.''
   \<and> \<not> sublist ''Unsupported'' ''npx is not available. Please install Node.js and npm.''"
  by code_simp

text \<open>
  Claim C10. Every line that \<open>send_request\<close> writes is the envelope with version tag
  \<open>2.0\<close>, id \<open>1\<close>, the method and the parameters (\<open>{}\<close> for none), followed by a newline;
  so every line written during a run, by the handshake and by each tool call, carries
  the same id \<open>1\<close>.
\<close>

theorem requests_carry_fixed_id:
  "(\<forall>line. Write line \<in> set (actions (send_request cd io m ps c)) \<longrightarrow>
      line = dumps cd (JObj [(''jsonrpc'', JStr ''2.0''), (''id'', JNum 1),
                             (''method'', JStr m),
                             (''params'', if truthy ps then ps else JObj [])]) @ [CHR 0x0A])
   \<and> (\<forall>line. Write line \<in> set (actions (run_validation_async w project_dir llm_provider
                                          model api_key policy_content)) \<longrightarrow>
      (\<exists>method params.
         line = dumps (w_codec w) (JObj [(''jsonrpc'', JStr ''2.0''), (''id'', JNum 1),
                                        (''method'', JStr method), (''params'', params)])
                @ [CHR 0x0A]))"
proof (intro conjI allI impI)
  fix line
  assume "Write line \<in> set (actions (send_request cd io m ps c))"
  then show "line = dumps cd (JObj [(''jsonrpc'', JStr ''2.0''), (''id'', JNum 1),
                             (''method'', JStr m),
                             (''params'', if truthy ps then ps else JObj [])]) @ [CHR 0x0A]"
    using send_request_writes[of cd io m ps c] by (auto simp: envelope_line_def)
next
  fix line
  assume "Write line \<in> set (actions (run_validation_async w project_dir llm_provider
                                          model api_key policy_content))"
  then have "Write line \<in> set (actions (pipeline w project_dir llm_provider model api_key
                    policy_content (MCPFilesystemClient project_dir)))"
    using close_no_chat[of "w_close w"] by (auto simp: run_actions)
  then have "\<exists>m ps. Write line = Write (envelope_line (w_codec w) m ps)"
    using pipeline_actions[of w project_dir llm_provider model api_key policy_content
        "MCPFilesystemClient project_dir"]
    by fastforce
  then show "\<exists>method params.
         line = dumps (w_codec w) (JObj [(''jsonrpc'', JStr ''2.0''), (''id'', JNum 1),
                                        (''method'', JStr method), (''params'', params)])
                @ [CHR 0x0A]"
    by (simp add: envelope_line_def)
qed

theorem requests_carry_fixed_id_witness:
  "Write (dumps_value (request ''tools/call''
         (JObj [(''name'', JStr ''read_file''),
                (''arguments'', JObj [(''path'', JStr ''/work/proj/policy.txt'')])])) @ [CHR 0x0A])
     \<in> set (actions (run_validation_async demo_world ''/work/proj'' ''OpenAI'' ''gpt-4'' ''sk-key''
                None))
   \<and> (\<exists>method params.
         dumps_value (request ''tools/call''
           (JObj [(''name'', JStr ''read_file''),
                  (''arguments'', JObj [(''path'', JStr ''/work/proj/policy.txt'')])])) @ [CHR 0x0A]
         = dumps (w_codec demo_world) (JObj [(''jsonrpc'', JStr ''2.0''), (''id'', JNum 1),
                                        (''method'', JStr method), (''params'', params)])
                @ [CHR 0x0A])
   \<and> actions (send_request demo_codec (answers ok_answer) ''initialize'' JNull running_client)
       = [Write (dumps demo_codec (JObj [(''jsonrpc'', JStr ''2.0''), (''id'', JNum 1),
                             (''method'', JStr ''initialize''), (''params'', JObj [])])
                 @ [CHR 0x0A])]"
proof -
  let ?line = "dumps_value (request ''tools/call''
         (JObj [(''name'', JStr ''read_file''),
                (''arguments'', JObj [(''path'', JStr ''/work/proj/policy.txt'')])])) @ [CHR 0x0A]"
  let ?run = "run_validation_async demo_world ''/work/proj'' ''OpenAI'' ''gpt-4'' ''sk-key'' None"
  note t = requests_carry_fixed_id[of demo_codec "answers ok_answer" "''initialize''" JNull
      running_client demo_world "''/work/proj''" "''OpenAI''" "''gpt-4''" "''sk-key''" None]
  have "Write ?line \<in> set (filter (\<lambda>a. case a of Write l \<Rightarrow> True | _ \<Rightarrow> False) (actions ?run))"
    unfolding demo_run_writes by simp
  then have m: "Write ?line \<in> set (actions ?run)" by simp
  with t have e: "\<exists>method params. ?line
         = dumps (w_codec demo_world) (JObj [(''jsonrpc'', JStr ''2.0''), (''id'', JNum 1),
                                        (''method'', JStr method), (''params'', params)])
                @ [CHR 0x0A]"
    by blast
  have a: "actions (send_request demo_codec (answers ok_answer) ''initialize'' JNull running_client)
       = [Write (dumps demo_codec (request ''initialize'' JNull) @ [CHR 0x0A])]"
  proof -
    have "write_error (answers ok_answer) = None" by (simp add: answers_def)
    from send_request_running[OF demo_states(2) this, of demo_codec "''initialize''" JNull]
    show ?thesis by simp
  qed
  have "Write (dumps demo_codec (request ''initialize'' JNull) @ [CHR 0x0A])
          \<in> set (actions (send_request demo_codec (answers ok_answer) ''initialize'' JNull
                running_client))"
    by (simp add: a)
  with t have "dumps demo_codec (request ''initialize'' JNull) @ [CHR 0x0A]
      = dumps demo_codec (JObj [(''jsonrpc'', JStr ''2.0''), (''id'', JNum 1),
                             (''method'', JStr ''initialize''), (''params'', JObj [])])
                 @ [CHR 0x0A]"
    by simp
  with a m e show ?thesis by simp
qed

end
